theory Spec2Isabelle
  imports Complex_Main
begin

section \<open>Text primitives of the host language\<close>

text \<open>
  Text is modelled as \<^typ>\<open>string\<close>, a list of 8-bit characters. The source works on
  Python \<open>str\<close> values; the model covers the texts whose code points are below 256, and
  on these the whitespace set of \<open>str.strip()\<close> and the digit set of the regular
  expression class \<open>\d\<close> are exactly the ones written below.
\<close>

definition is_space :: "char \<Rightarrow> bool" where
  \<comment> \<open>\<open>str.isspace\<close> on one character: TAB..CR, FS..US, SPACE, NEL, NBSP.\<close>
  "is_space c = (let n = (of_char c :: nat) in
     (9 \<le> n \<and> n \<le> 13) \<or> (28 \<le> n \<and> n \<le> 32) \<or> n = 133 \<or> n = 160)"

definition strip :: "string \<Rightarrow> string" where
  \<comment> \<open>\<open>s.strip()\<close>: leading and trailing whitespace removed.\<close>
  "strip s = rev (dropWhile is_space (rev (dropWhile is_space s)))"

fun split_on :: "char \<Rightarrow> string \<Rightarrow> string list" where
  \<comment> \<open>\<open>s.split(sep)\<close> for a one-character separator: never empty, \<open>''.split(sep) == ['']\<close>.\<close>
  "split_on sep [] = [[]]"
| "split_on sep (c # cs) =
     (if c = sep then [] # split_on sep cs
      else (case split_on sep cs of [] \<Rightarrow> [[c]] | p # ps \<Rightarrow> (c # p) # ps))"

definition is_digit :: "char \<Rightarrow> bool" where
  "is_digit c = (c \<in> set ''0123456789'')"

fun str_nat :: "nat \<Rightarrow> string" where
  \<comment> \<open>\<open>str(n)\<close> for a non-negative integer, as the f-strings of the source print it.\<close>
  "str_nat n = (if n < 10 then [''0123456789'' ! n]
                else str_nat (n div 10) @ [''0123456789'' ! (n mod 10)])"

declare str_nat.simps [simp del]

datatype error =
    IndexError
  | ValueError string
  | AttributeError string

definition py_index :: "'a list \<Rightarrow> nat \<Rightarrow> error + 'a" where
  \<comment> \<open>\<open>xs[i]\<close> for \<open>i \<ge> 0\<close>: raises \<open>IndexError\<close> out of range.\<close>
  "py_index xs i = (if i < length xs then Inr (xs ! i) else Inl IndexError)"

definition last_three :: "'a list \<Rightarrow> 'a list" where
  \<comment> \<open>\<open>xs[-3:]\<close>: a slice never raises; a list shorter than 3 is returned whole.\<close>
  "last_three xs = drop (length xs - 3) xs"

section \<open>Segments\<close>

record segment =
  segment_id :: string
  elements :: "string list"
  line_number :: nat
  position :: nat

text \<open>
  \<open>_split_into_segments\<close> (the parser and the validator each carry the same copy):
  the message is stripped, split at newlines, and every line is numbered by \<open>enumerate\<close>.
  The loop carries the index \<open>i\<close> and the list \<open>segments\<close> built so far.
\<close>

fun split_loop :: "nat \<Rightarrow> string list \<Rightarrow> segment list \<Rightarrow> segment list" where
  "split_loop i [] segments = segments"
| "split_loop i (line # lines) segments =
     (let line' = strip line in
      if line' = [] then split_loop (Suc i) lines segments
      else let parts = split_on (CHR ''*'') line' in
        if length parts < 2 then split_loop (Suc i) lines segments
        else split_loop (Suc i) lines
               (segments @ [\<lparr>segment_id = parts ! 0, elements = drop 1 parts,
                             line_number = i + 1, position = length segments + 1\<rparr>]))"

definition split_into_segments :: "string \<Rightarrow> segment list" where
  "split_into_segments edi_message = split_loop 0 (split_on (CHR 0x0A) (strip edi_message)) []"

definition numbered_parts :: "nat \<Rightarrow> string list \<Rightarrow> (nat \<times> string list) list" where
  \<comment> \<open>Every line with its 1-based number and its split at the element separator;
      only used to state what the segmenter returns.\<close>
  "numbered_parts i lines =
     map (\<lambda>(k, line). (Suc k, split_on (CHR ''*'') (strip line))) (enumerate i lines)"

definition kept :: "(nat \<times> string list) \<Rightarrow> bool" where
  "kept np = (2 \<le> length (snd np))"

definition seg_view :: "segment \<Rightarrow> nat \<times> string list" where
  "seg_view s = (line_number s, segment_id s # elements s)"

section \<open>Validation messages and results\<close>

datatype message_level = MESSAGE_LEVEL_ERROR | MESSAGE_LEVEL_WARNING | MESSAGE_LEVEL_INFO

record processing_message =
  level :: message_level
  code :: string
  message :: string
  field :: "string option"
  msg_line_number :: "nat option"

record validation_result =
  is_valid :: bool
  messages :: "processing_message list"
  has_errors :: bool

definition str_error :: "error \<Rightarrow> string" where
  \<comment> \<open>\<open>str(e)\<close>: the text the runtime attaches to the exception.\<close>
  "str_error e = (case e of IndexError \<Rightarrow> ''list index out of range''
                   | ValueError t \<Rightarrow> t | AttributeError t \<Rightarrow> t)"

section \<open>EdiValidator: format validation\<close>

definition segment_patterns :: "(string \<times> (string list \<times> string list)) list" where
  \<comment> \<open>The dictionary \<open>self.segment_patterns\<close>: message type to (required, optional).\<close>
  "segment_patterns =
    [(''850'', ([''ISA'', ''GS'', ''ST'', ''BEG'', ''SE'', ''GE'', ''IEA''],
                [''REF'', ''N1'', ''N3'', ''N4'', ''PO1'', ''CTT''])),
     (''810'', ([''ISA'', ''GS'', ''ST'', ''BIG'', ''SE'', ''GE'', ''IEA''],
                [''REF'', ''N1'', ''N3'', ''N4'', ''IT1'', ''TDS'', ''CTT''])),
     (''856'', ([''ISA'', ''GS'', ''ST'', ''BSN'', ''SE'', ''GE'', ''IEA''],
                [''REF'', ''N1'', ''N3'', ''N4'', ''HL'', ''PRF'', ''TD1'', ''TD5''])),
     (''997'', ([''ISA'', ''GS'', ''ST'', ''AK1'', ''SE'', ''GE'', ''IEA''],
                [''AK2'', ''AK5'', ''AK9'']))]"

definition isa_element_lengths :: "nat list" where
  "isa_element_lengths = [2, 10, 2, 10, 2, 15, 2, 15, 6, 4, 1, 5, 2, 1, 1, 1]"

definition invalid_isa_message :: processing_message where
  "invalid_isa_message =
     \<lparr>level = MESSAGE_LEVEL_ERROR, code = ''INVALID_ISA_SEGMENT'',
      message = ''First segment must be ISA'', field = Some ''ISA'', msg_line_number = None\<rparr>"

definition insufficient_isa_message :: processing_message where
  "insufficient_isa_message =
     \<lparr>level = MESSAGE_LEVEL_ERROR, code = ''INSUFFICIENT_ISA_ELEMENTS'',
      message = ''ISA segment must have at least 16 elements'', field = Some ''ISA'',
      msg_line_number = None\<rparr>"

definition isa_too_long_message :: "nat \<Rightarrow> nat \<Rightarrow> processing_message" where
  "isa_too_long_message i expected_length =
     \<lparr>level = MESSAGE_LEVEL_WARNING, code = ''ISA_ELEMENT_TOO_LONG'',
      message = ''ISA element '' @ str_nat (i + 1) @ '' exceeds maximum length of ''
                  @ str_nat expected_length,
      field = Some (''ISA.'' @ str_nat (i + 1)), msg_line_number = None\<rparr>"

text \<open>
  The loops of the validator append to a local list \<open>messages\<close>; each loop function below
  returns the messages its loop appends, in order. An indexing \<open>xs[i]\<close> of the source is
  \<^const>\<open>py_index\<close>, so an index fault is a value \<open>Inl IndexError\<close> of the model.
\<close>

fun isa_lengths_loop :: "nat \<Rightarrow> nat list \<Rightarrow> string list \<Rightarrow> error + processing_message list" where
  "isa_lengths_loop i [] elems = Inr []"
| "isa_lengths_loop i (expected_length # rest) elems =
     (if i < length elems then
        (case py_index elems i of
           Inl e \<Rightarrow> Inl e
         | Inr element \<Rightarrow>
             (case isa_lengths_loop (Suc i) rest elems of
                Inl e \<Rightarrow> Inl e
              | Inr ms \<Rightarrow>
                  Inr ((if length element > expected_length
                        then [isa_too_long_message i expected_length] else []) @ ms)))
      else isa_lengths_loop (Suc i) rest elems)"

definition validate_isa_segment :: "segment \<Rightarrow> error + validation_result" where
  "validate_isa_segment isa_segment =
     (if segment_id isa_segment \<noteq> ''ISA'' then
        Inr \<lparr>is_valid = False, messages = [invalid_isa_message], has_errors = True\<rparr>
      else
        let elems = elements isa_segment;
            too_few = (length elems < 16)
        in case isa_lengths_loop 0 isa_element_lengths elems of
             Inl e \<Rightarrow> Inl e
           | Inr ws \<Rightarrow>
               Inr \<lparr>is_valid = \<not> too_few,
                    messages = (if too_few then [insufficient_isa_message] else []) @ ws,
                    has_errors = too_few\<rparr>)"

definition missing_required_message :: "string \<Rightarrow> processing_message" where
  "missing_required_message required_segment =
     \<lparr>level = MESSAGE_LEVEL_ERROR, code = ''MISSING_REQUIRED_SEGMENT'',
      message = ''Required segment '' @ required_segment @ '' is missing'',
      field = Some required_segment, msg_line_number = None\<rparr>"

fun required_loop :: "string list \<Rightarrow> string list \<Rightarrow> processing_message list" where
  "required_loop [] segment_ids = []"
| "required_loop (required_segment # rest) segment_ids =
     (if required_segment \<notin> set segment_ids
      then [missing_required_message required_segment] else [])
     @ required_loop rest segment_ids"

definition segment_order_message :: "string \<Rightarrow> nat \<Rightarrow> string \<Rightarrow> processing_message" where
  "segment_order_message expected_segment i found =
     \<lparr>level = MESSAGE_LEVEL_ERROR, code = ''INVALID_SEGMENT_ORDER'',
      message = ''Expected '' @ expected_segment @ '' at position '' @ str_nat (i + 1)
                  @ '', found '' @ found,
      field = Some expected_segment, msg_line_number = None\<rparr>"

definition closing_segments_message :: processing_message where
  "closing_segments_message =
     \<lparr>level = MESSAGE_LEVEL_ERROR, code = ''INVALID_CLOSING_SEGMENTS'',
      message = ''Message must end with SE, GE, IEA segments'',
      field = Some ''closing_segments'', msg_line_number = None\<rparr>"

fun sequence_loop :: "nat \<Rightarrow> string list \<Rightarrow> string list \<Rightarrow> error + processing_message list" where
  "sequence_loop i [] segment_ids = Inr []"
| "sequence_loop i (expected_segment # rest) segment_ids =
     (if i < length segment_ids then
        (case py_index segment_ids i of
           Inl e \<Rightarrow> Inl e
         | Inr found \<Rightarrow>
             (case sequence_loop (Suc i) rest segment_ids of
                Inl e \<Rightarrow> Inl e
              | Inr ms \<Rightarrow>
                  Inr ((if found \<noteq> expected_segment
                        then [segment_order_message expected_segment i found] else []) @ ms)))
      else sequence_loop (Suc i) rest segment_ids)"

definition validate_segment_structure :: "segment list \<Rightarrow> string \<Rightarrow> error + validation_result" where
  \<comment> \<open>\<open>has_errors\<close> is set exactly where a message is appended.\<close>
  "validate_segment_structure segments message_type =
     (let segment_ids = map segment_id segments in
      case sequence_loop 0 [''ISA'', ''GS'', ''ST''] segment_ids of
        Inl e \<Rightarrow> Inl e
      | Inr order_messages \<Rightarrow>
          let closing_messages =
                (if last_three segment_ids \<noteq> [''SE'', ''GE'', ''IEA'']
                 then [closing_segments_message] else []);
              msgs = order_messages @ closing_messages
          in Inr \<lparr>is_valid = (msgs = []), messages = msgs, has_errors = (msgs \<noteq> [])\<rparr>)"

definition insufficient_st_message :: "segment \<Rightarrow> processing_message" where
  "insufficient_st_message seg =
     \<lparr>level = MESSAGE_LEVEL_ERROR, code = ''INSUFFICIENT_ST_ELEMENTS'',
      message = ''ST segment must have at least 2 elements'', field = Some ''ST'',
      msg_line_number = Some (line_number seg)\<rparr>"

definition insufficient_beg_message :: "segment \<Rightarrow> processing_message" where
  "insufficient_beg_message seg =
     \<lparr>level = MESSAGE_LEVEL_ERROR, code = ''INSUFFICIENT_BEG_ELEMENTS'',
      message = ''BEG segment must have at least 3 elements'', field = Some ''BEG'',
      msg_line_number = Some (line_number seg)\<rparr>"

fun elements_loop :: "segment list \<Rightarrow> processing_message list" where
  "elements_loop [] = []"
| "elements_loop (seg # rest) =
     (if segment_id seg = ''ST'' \<and> length (elements seg) < 2 then [insufficient_st_message seg]
      else if segment_id seg = ''BEG'' \<and> length (elements seg) < 3
           then [insufficient_beg_message seg]
      else [])
     @ elements_loop rest"

definition validate_segment_elements :: "segment list \<Rightarrow> string \<Rightarrow> validation_result" where
  "validate_segment_elements segments message_type =
     (let msgs = elements_loop segments
      in \<lparr>is_valid = (msgs = []), messages = msgs, has_errors = (msgs \<noteq> [])\<rparr>)"

definition unsupported_type_message :: "string \<Rightarrow> processing_message" where
  "unsupported_type_message message_type =
     \<lparr>level = MESSAGE_LEVEL_ERROR, code = ''UNSUPPORTED_MESSAGE_TYPE'',
      message = ''Message type '' @ message_type @ '' is not supported'',
      field = None, msg_line_number = None\<rparr>"

definition empty_message_message :: processing_message where
  "empty_message_message =
     \<lparr>level = MESSAGE_LEVEL_ERROR, code = ''EMPTY_MESSAGE'',
      message = ''EDI message is empty or contains no valid segments'',
      field = None, msg_line_number = None\<rparr>"

text \<open>
  The body of the \<open>try\<close> of \<open>validate_format\<close>. An exception leaves the block with the
  messages appended so far, which the handler keeps: \<open>Inl (e, messages)\<close>.
\<close>

definition validate_format_try ::
  "string \<Rightarrow> string \<Rightarrow> (error \<times> processing_message list) + validation_result" where
  "validate_format_try edi_message message_type =
     (case map_of segment_patterns message_type of
        None \<Rightarrow>
          Inr \<lparr>is_valid = False, messages = [unsupported_type_message message_type],
               has_errors = True\<rparr>
      | Some pattern \<Rightarrow>
          let segments = split_into_segments edi_message in
          if segments = [] then
            Inr \<lparr>is_valid = False, messages = [empty_message_message], has_errors = True\<rparr>
          else
            (case py_index segments 0 of
               Inl e \<Rightarrow> Inl (e, [])
             | Inr first \<Rightarrow>
            (case validate_isa_segment first of
               Inl e \<Rightarrow> Inl (e, [])
             | Inr isa_validation \<Rightarrow>
                 let required_segments = fst pattern;
                     segment_ids = map segment_id segments;
                     required_messages = required_loop required_segments segment_ids;
                     messages1 = messages isa_validation @ required_messages;
                     has_errors1 = (has_errors isa_validation \<or> required_messages \<noteq> [])
                 in
            (case validate_segment_structure segments message_type of
               Inl e \<Rightarrow> Inl (e, messages1)
             | Inr structure_validation \<Rightarrow>
                 let element_validation = validate_segment_elements segments message_type;
                     messages3 = messages1 @ messages structure_validation
                                   @ messages element_validation;
                     has_errors3 = (has_errors1 \<or> has_errors structure_validation
                                     \<or> has_errors element_validation)
                 in Inr \<lparr>is_valid = \<not> has_errors3, messages = messages3,
                         has_errors = has_errors3\<rparr>))))"

definition validate_format :: "string \<Rightarrow> string \<Rightarrow> validation_result" where
  "validate_format edi_message message_type =
     (case validate_format_try edi_message message_type of
        Inr result \<Rightarrow> result
      | Inl (e, msgs) \<Rightarrow>
          \<lparr>is_valid = False,
           messages = msgs @ [\<lparr>level = MESSAGE_LEVEL_ERROR, code = ''VALIDATION_ERROR'',
                                message = ''Validation error: '' @ str_error e,
                                field = None, msg_line_number = None\<rparr>],
           has_errors = True\<rparr>)"

section \<open>EdiValidator: version and type detection\<close>

text \<open>
  Both detectors run \<open>re.search\<close> on the raw text. The version patterns are
  \<open>ISA\*\<close>, then a number of copies of \<open>[^*]*\*\<close>, then the marker: 16 copies before
  \<open>004010\<close> and 17 copies before \<open>005010\<close>. A pattern is kept as that number and the
  marker. \<open>[^*]*\<close> can only stop at the next asterisk (it also runs over newlines), so a
  match from a given start is found without backtracking: skip the fields, compare the
  marker. \<open>re.search\<close> tries every start position from the left.
\<close>

fun skip_fields :: "nat \<Rightarrow> string \<Rightarrow> string option" where
  "skip_fields 0 s = Some s"
| "skip_fields (Suc n) s =
     (case dropWhile (\<lambda>c. c \<noteq> CHR ''*'') s of
        [] \<Rightarrow> None
      | star # rest \<Rightarrow> skip_fields n rest)"

definition starts_with :: "string \<Rightarrow> string \<Rightarrow> bool" where
  "starts_with pre s = (take (length pre) s = pre)"

definition version_match_at :: "nat \<times> string \<Rightarrow> string \<Rightarrow> bool" where
  "version_match_at pattern s =
     (starts_with ''ISA*'' s \<and>
      (case skip_fields (fst pattern) (drop 4 s) of
         None \<Rightarrow> False
       | Some rest \<Rightarrow> starts_with (snd pattern) rest))"

fun version_search :: "nat \<times> string \<Rightarrow> string \<Rightarrow> bool" where
  "version_search pattern [] = version_match_at pattern []"
| "version_search pattern (c # cs) =
     (version_match_at pattern (c # cs) \<or> version_search pattern cs)"

definition edi_version_patterns :: "(string \<times> (nat \<times> string)) list" where
  "edi_version_patterns = [(''004010'', (16, ''004010'')), (''005010'', (17, ''005010''))]"

fun version_loop :: "(string \<times> (nat \<times> string)) list \<Rightarrow> string \<Rightarrow> string" where
  "version_loop [] edi_message = ''Unknown''"
| "version_loop ((version, pattern) # rest) edi_message =
     (if version_search pattern edi_message then version else version_loop rest edi_message)"

definition detect_edi_version :: "string \<Rightarrow> string" where
  "detect_edi_version edi_message = version_loop edi_version_patterns edi_message"

text \<open>The type pattern is \<open>ST\*(\d{3})\<close>; the result is its group.\<close>

fun st_match_at :: "string \<Rightarrow> string option" where
  "st_match_at (c1 # c2 # c3 # d1 # d2 # d3 # rest) =
     (if c1 = CHR ''S'' \<and> c2 = CHR ''T'' \<and> c3 = CHR ''*''
         \<and> is_digit d1 \<and> is_digit d2 \<and> is_digit d3
      then Some [d1, d2, d3] else None)"
| "st_match_at s = None"

fun st_search :: "string \<Rightarrow> string option" where
  "st_search [] = None"
| "st_search (c # cs) =
     (case st_match_at (c # cs) of Some g \<Rightarrow> Some g | None \<Rightarrow> st_search cs)"

definition detect_message_type :: "string \<Rightarrow> string" where
  "detect_message_type edi_message =
     (case st_search edi_message of Some g \<Rightarrow> g | None \<Rightarrow> ''Unknown'')"

section \<open>Typed records\<close>

text \<open>
  The generated message classes are not part of the sources; the records carry the fields
  the code reads and writes, with the defaults of a fresh message (empty text, zero, empty
  list). The number type \<open>'v\<close> of a quantity or price is left open.
\<close>

record party =
  entity_identifier_code :: string
  name :: string

record 'v quantity =
  quantity_value :: 'v
  unit_of_measure :: string

record 'v money =
  money_value :: 'v

record product =
  description :: string
  product_id :: string

record 'v purchase_order_line_item =
  po_item_line_number :: string
  quantity_ordered :: "'v quantity"
  po_item_unit_price :: "'v money"
  po_item_product :: product

record 'v invoice_line_item =
  inv_item_line_number :: string
  quantity_invoiced :: "'v quantity"
  inv_item_unit_price :: "'v money"
  inv_item_product :: product

record 'v purchase_order_data =
  po_number :: string
  po_date :: string
  buyer :: party
  seller :: party
  po_ship_to :: party
  po_bill_to :: party
  po_line_items :: "'v purchase_order_line_item list"

record 'v invoice_data =
  invoice_number :: string
  invoice_date :: string
  due_date :: string
  inv_bill_to :: party
  remit_to :: party
  inv_ship_from :: party
  inv_ship_to :: party
  inv_line_items :: "'v invoice_line_item list"

record advance_ship_notice_data =
  shipment_id :: string
  shipment_date :: string
  expected_delivery_date :: string
  asn_ship_from :: party
  asn_ship_to :: party
  asn_bill_to :: party
  carrier :: party

record transaction_set_acknowledgment =
  transaction_set_id :: string
  control_number :: string
  ack_acknowledgment_code :: string

record functional_acknowledgment_data =
  original_transaction_set_id :: string
  original_control_number :: string
  acknowledgment_code :: string
  transaction_set_acks :: "transaction_set_acknowledgment list"

datatype 'v parsed_data =
    PurchaseOrderData "'v purchase_order_data"
  | InvoiceData "'v invoice_data"
  | AdvanceShipNoticeData advance_ship_notice_data
  | FunctionalAcknowledgmentData functional_acknowledgment_data

definition empty_party :: party where
  "empty_party = \<lparr>entity_identifier_code = [], name = []\<rparr>"

definition empty_product :: product where
  "empty_product = \<lparr>description = [], product_id = []\<rparr>"

definition empty_po_item :: "('v::zero) purchase_order_line_item" where
  "empty_po_item =
     \<lparr>po_item_line_number = [],
      quantity_ordered = \<lparr>quantity_value = 0, unit_of_measure = []\<rparr>,
      po_item_unit_price = \<lparr>money_value = 0\<rparr>,
      po_item_product = empty_product\<rparr>"

definition empty_inv_item :: "('v::zero) invoice_line_item" where
  "empty_inv_item =
     \<lparr>inv_item_line_number = [],
      quantity_invoiced = \<lparr>quantity_value = 0, unit_of_measure = []\<rparr>,
      inv_item_unit_price = \<lparr>money_value = 0\<rparr>,
      inv_item_product = empty_product\<rparr>"

definition empty_purchase_order :: "'v purchase_order_data" where
  "empty_purchase_order =
     \<lparr>po_number = [], po_date = [], buyer = empty_party, seller = empty_party,
      po_ship_to = empty_party, po_bill_to = empty_party, po_line_items = []\<rparr>"

definition empty_invoice :: "'v invoice_data" where
  "empty_invoice =
     \<lparr>invoice_number = [], invoice_date = [], due_date = [], inv_bill_to = empty_party,
      remit_to = empty_party, inv_ship_from = empty_party, inv_ship_to = empty_party,
      inv_line_items = []\<rparr>"

definition empty_ship_notice :: advance_ship_notice_data where
  "empty_ship_notice =
     \<lparr>shipment_id = [], shipment_date = [], expected_delivery_date = [],
      asn_ship_from = empty_party, asn_ship_to = empty_party, asn_bill_to = empty_party,
      carrier = empty_party\<rparr>"

definition empty_transaction_ack :: transaction_set_acknowledgment where
  "empty_transaction_ack =
     \<lparr>transaction_set_id = [], control_number = [], ack_acknowledgment_code = []\<rparr>"

definition empty_functional_ack :: functional_acknowledgment_data where
  "empty_functional_ack =
     \<lparr>original_transaction_set_id = [], original_control_number = [],
      acknowledgment_code = [], transaction_set_acks = []\<rparr>"

section \<open>EdiValidator: business rules\<close>

definition error_message :: "string \<Rightarrow> string \<Rightarrow> string \<Rightarrow> processing_message" where
  \<comment> \<open>An Error-level message with a code, a text and a field, as every rule builds it.\<close>
  "error_message c text fld =
     \<lparr>level = MESSAGE_LEVEL_ERROR, code = c, message = text, field = Some fld,
      msg_line_number = None\<rparr>"

fun po_items_loop ::
  "nat \<Rightarrow> ('v::{zero,ord}) purchase_order_line_item list \<Rightarrow> processing_message list" where
  "po_items_loop i [] = []"
| "po_items_loop i (line_item # rest) =
     (if po_item_line_number line_item = [] then
        [error_message ''MISSING_LINE_NUMBER''
           (''Line item '' @ str_nat (i + 1) @ '' must have a line number'')
           (''line_items['' @ str_nat i @ ''].line_number'')]
      else [])
     @ (if quantity_value (quantity_ordered line_item) \<le> 0 then
          [error_message ''INVALID_QUANTITY''
             (''Line item '' @ str_nat (i + 1) @ '' quantity must be greater than 0'')
             (''line_items['' @ str_nat i @ ''].quantity_ordered'')]
        else [])
     @ po_items_loop (Suc i) rest"

definition validate_purchase_order_rules ::
  "('v::{zero,ord}) purchase_order_data \<Rightarrow> validation_result" where
  "validate_purchase_order_rules po_data =
     (let msgs =
        (if po_number po_data = [] then
           [error_message ''MISSING_PO_NUMBER'' ''Purchase Order number is required''
              ''po_number'']
         else [])
        @ (if po_line_items po_data = [] then
             [error_message ''NO_LINE_ITEMS''
                ''Purchase Order must have at least one line item'' ''line_items'']
           else [])
        @ po_items_loop 0 (po_line_items po_data)
      in \<lparr>is_valid = (msgs = []), messages = msgs, has_errors = (msgs \<noteq> [])\<rparr>)"

definition validate_invoice_rules :: "'v invoice_data \<Rightarrow> validation_result" where
  "validate_invoice_rules invoice_data =
     (let msgs =
        (if invoice_number invoice_data = [] then
           [error_message ''MISSING_INVOICE_NUMBER'' ''Invoice number is required''
              ''invoice_number'']
         else [])
        @ (if inv_line_items invoice_data = [] then
             [error_message ''NO_LINE_ITEMS'' ''Invoice must have at least one line item''
                ''line_items'']
           else [])
      in \<lparr>is_valid = (msgs = []), messages = msgs, has_errors = (msgs \<noteq> [])\<rparr>)"

definition validate_asn_rules :: "advance_ship_notice_data \<Rightarrow> validation_result" where
  "validate_asn_rules asn_data =
     (let msgs =
        (if shipment_id asn_data = [] then
           [error_message ''MISSING_SHIPMENT_ID'' ''Shipment ID is required'' ''shipment_id'']
         else [])
      in \<lparr>is_valid = (msgs = []), messages = msgs, has_errors = (msgs \<noteq> [])\<rparr>)"

definition validate_functional_ack_rules ::
  "functional_acknowledgment_data \<Rightarrow> validation_result" where
  "validate_functional_ack_rules fa_data =
     (let msgs =
        (if original_transaction_set_id fa_data = [] then
           [error_message ''MISSING_ORIGINAL_TRANSACTION_SET_ID''
              ''Original transaction set ID is required'' ''original_transaction_set_id'']
         else [])
      in \<lparr>is_valid = (msgs = []), messages = msgs, has_errors = (msgs \<noteq> [])\<rparr>)"

text \<open>
  \<open>validate_business_rules\<close> takes any parsed data. Data of another kind than the message
  type names has none of the attributes the rule set reads first, which raises
  \<open>AttributeError\<close> inside the \<open>try\<close>; the attribute name stands for the runtime's text.
\<close>

definition validate_business_rules_try ::
  "('v::{zero,ord}) parsed_data \<Rightarrow> string \<Rightarrow> error + validation_result" where
  "validate_business_rules_try parsed message_type =
     (let finish = (\<lambda>sub. Inr \<lparr>is_valid = \<not> has_errors sub, messages = messages sub,
                                has_errors = has_errors sub\<rparr>)
      in
      if message_type = ''850'' then
        (case parsed of PurchaseOrderData po_data \<Rightarrow> finish (validate_purchase_order_rules po_data)
         | _ \<Rightarrow> Inl (AttributeError ''po_number''))
      else if message_type = ''810'' then
        (case parsed of InvoiceData invoice_data \<Rightarrow> finish (validate_invoice_rules invoice_data)
         | _ \<Rightarrow> Inl (AttributeError ''invoice_number''))
      else if message_type = ''856'' then
        (case parsed of AdvanceShipNoticeData asn_data \<Rightarrow> finish (validate_asn_rules asn_data)
         | _ \<Rightarrow> Inl (AttributeError ''shipment_id''))
      else if message_type = ''997'' then
        (case parsed of
           FunctionalAcknowledgmentData fa_data \<Rightarrow> finish (validate_functional_ack_rules fa_data)
         | _ \<Rightarrow> Inl (AttributeError ''original_transaction_set_id''))
      else Inr \<lparr>is_valid = True, messages = [], has_errors = False\<rparr>)"

definition validate_business_rules ::
  "('v::{zero,ord}) parsed_data \<Rightarrow> string \<Rightarrow> validation_result" where
  "validate_business_rules parsed message_type =
     (case validate_business_rules_try parsed message_type of
        Inr result \<Rightarrow> result
      | Inl e \<Rightarrow>
          \<lparr>is_valid = False,
           messages = [\<lparr>level = MESSAGE_LEVEL_ERROR, code = ''BUSINESS_RULE_ERROR'',
                         message = ''Business rule validation error: '' @ str_error e,
                         field = None, msg_line_number = None\<rparr>],
           has_errors = True\<rparr>)"

section \<open>EdiParser\<close>

text \<open>
  The builtin \<open>float\<close> is a parameter \<open>float_of\<close> of the parser: \<open>Inr v\<close> is the number
  read, \<open>Inl t\<close> is a \<open>ValueError\<close> with the text \<open>t\<close>. An element is read as
  \<open>float(x) if x else 0.0\<close>. Every \<open>elems ! k\<close> below stands under the length test that
  guards \<open>elements[k]\<close> in the source.
\<close>

definition to_float :: "(string \<Rightarrow> string + 'v) \<Rightarrow> string \<Rightarrow> error + ('v::zero)" where
  "to_float float_of x =
     (if x \<noteq> [] then (case float_of x of Inl t \<Rightarrow> Inl (ValueError t) | Inr v \<Rightarrow> Inr v)
      else Inr 0)"

fun for_each :: "('a \<Rightarrow> 's \<Rightarrow> error + 's) \<Rightarrow> 'a list \<Rightarrow> 's \<Rightarrow> error + 's" where
  \<comment> \<open>A \<open>for\<close> loop whose body may raise: the first exception ends the loop.\<close>
  "for_each body [] st = Inr st"
| "for_each body (x # xs) st =
     (case body x st of Inl e \<Rightarrow> Inl e | Inr st' \<Rightarrow> for_each body xs st')"

definition po_beg :: "string list \<Rightarrow> 'v purchase_order_data \<Rightarrow> 'v purchase_order_data" where
  "po_beg elems po_data =
     (let po1 = (if length elems \<ge> 2
                 then po_data\<lparr>po_number := (if length elems > 1 then elems ! 1 else [])\<rparr>
                 else po_data)
      in if length elems \<ge> 3
         then po1\<lparr>po_date := (if length elems > 2 then elems ! 2 else [])\<rparr>
         else po1)"

definition parse_po1 ::
  "(string \<Rightarrow> string + 'v) \<Rightarrow> string list \<Rightarrow> error + ('v::zero) purchase_order_line_item" where
  "parse_po1 float_of elems =
     (let item0 = empty_po_item;
          item1 = (if length elems \<ge> 1 then item0\<lparr>po_item_line_number := elems ! 0\<rparr>
                   else item0)
      in
      case (if length elems \<ge> 2 then
              (case to_float float_of (elems ! 1) of
                 Inl e \<Rightarrow> Inl e
               | Inr v \<Rightarrow>
                   Inr (item1\<lparr>quantity_ordered :=
                                (quantity_ordered item1)\<lparr>quantity_value := v\<rparr>\<rparr>))
            else Inr item1) of
        Inl e \<Rightarrow> Inl e
      | Inr item2 \<Rightarrow>
          let item3 = (if length elems \<ge> 3
                       then item2\<lparr>quantity_ordered :=
                                    (quantity_ordered item2)\<lparr>unit_of_measure := elems ! 2\<rparr>\<rparr>
                       else item2)
          in
          case (if length elems \<ge> 4 then
                  (case to_float float_of (elems ! 3) of
                     Inl e \<Rightarrow> Inl e
                   | Inr v \<Rightarrow>
                       Inr (item3\<lparr>po_item_unit_price :=
                                    (po_item_unit_price item3)\<lparr>money_value := v\<rparr>\<rparr>))
                else Inr item3) of
            Inl e \<Rightarrow> Inl e
          | Inr item4 \<Rightarrow>
              let item5 = (if length elems \<ge> 5
                           then item4\<lparr>po_item_product :=
                                        (po_item_product item4)\<lparr>description := elems ! 4\<rparr>\<rparr>
                           else item4);
                  item6 = (if length elems \<ge> 6
                           then item5\<lparr>po_item_product :=
                                        (po_item_product item5)\<lparr>product_id := elems ! 5\<rparr>\<rparr>
                           else item5)
              in Inr item6)"

definition po_n1 :: "string list \<Rightarrow> 'v purchase_order_data \<Rightarrow> 'v purchase_order_data" where
  "po_n1 elems po_data =
     (if length elems \<ge> 2 then
        let entity_code = elems ! 0;
            p = \<lparr>entity_identifier_code = entity_code, name = elems ! 1\<rparr>
        in if entity_code = ''BY'' then po_data\<lparr>buyer := p\<rparr>
           else if entity_code = ''SE'' then po_data\<lparr>seller := p\<rparr>
           else if entity_code = ''ST'' then po_data\<lparr>po_ship_to := p\<rparr>
           else if entity_code = ''BT'' then po_data\<lparr>po_bill_to := p\<rparr>
           else po_data
      else po_data)"

definition po_segment ::
  "(string \<Rightarrow> string + 'v) \<Rightarrow> segment \<Rightarrow> ('v::zero) purchase_order_data
     \<Rightarrow> error + 'v purchase_order_data" where
  "po_segment float_of seg po_data =
     (let sid = segment_id seg; elems = elements seg in
      if sid = ''BEG'' then Inr (po_beg elems po_data)
      else if sid = ''PO1'' then
        (case parse_po1 float_of elems of
           Inl e \<Rightarrow> Inl e
         | Inr line_item \<Rightarrow>
             Inr (po_data\<lparr>po_line_items := po_line_items po_data @ [line_item]\<rparr>))
      else if sid = ''N1'' then Inr (po_n1 elems po_data)
      else Inr po_data)"

definition parse_purchase_order ::
  "(string \<Rightarrow> string + 'v) \<Rightarrow> segment list \<Rightarrow> error + ('v::zero) purchase_order_data" where
  "parse_purchase_order float_of segs = for_each (po_segment float_of) segs empty_purchase_order"

definition inv_big :: "string list \<Rightarrow> 'v invoice_data \<Rightarrow> 'v invoice_data" where
  "inv_big elems invoice_data =
     (let inv1 = (if length elems \<ge> 1 then invoice_data\<lparr>invoice_date := elems ! 0\<rparr> else invoice_data);
          inv2 = (if length elems \<ge> 2 then inv1\<lparr>invoice_number := elems ! 1\<rparr> else inv1)
      in if length elems \<ge> 3 then inv2\<lparr>due_date := elems ! 2\<rparr> else inv2)"

definition parse_it1 ::
  "(string \<Rightarrow> string + 'v) \<Rightarrow> string list \<Rightarrow> error + ('v::zero) invoice_line_item" where
  "parse_it1 float_of elems =
     (let item0 = empty_inv_item;
          item1 = (if length elems \<ge> 1 then item0\<lparr>inv_item_line_number := elems ! 0\<rparr>
                   else item0)
      in
      case (if length elems \<ge> 2 then
              (case to_float float_of (elems ! 1) of
                 Inl e \<Rightarrow> Inl e
               | Inr v \<Rightarrow>
                   Inr (item1\<lparr>quantity_invoiced :=
                                (quantity_invoiced item1)\<lparr>quantity_value := v\<rparr>\<rparr>))
            else Inr item1) of
        Inl e \<Rightarrow> Inl e
      | Inr item2 \<Rightarrow>
          let item3 = (if length elems \<ge> 3
                       then item2\<lparr>quantity_invoiced :=
                                    (quantity_invoiced item2)\<lparr>unit_of_measure := elems ! 2\<rparr>\<rparr>
                       else item2)
          in
          case (if length elems \<ge> 4 then
                  (case to_float float_of (elems ! 3) of
                     Inl e \<Rightarrow> Inl e
                   | Inr v \<Rightarrow>
                       Inr (item3\<lparr>inv_item_unit_price :=
                                    (inv_item_unit_price item3)\<lparr>money_value := v\<rparr>\<rparr>))
                else Inr item3) of
            Inl e \<Rightarrow> Inl e
          | Inr item4 \<Rightarrow>
              let item5 = (if length elems \<ge> 5
                           then item4\<lparr>inv_item_product :=
                                        (inv_item_product item4)\<lparr>description := elems ! 4\<rparr>\<rparr>
                           else item4);
                  item6 = (if length elems \<ge> 6
                           then item5\<lparr>inv_item_product :=
                                        (inv_item_product item5)\<lparr>product_id := elems ! 5\<rparr>\<rparr>
                           else item5)
              in Inr item6)"

definition inv_n1 :: "string list \<Rightarrow> 'v invoice_data \<Rightarrow> 'v invoice_data" where
  "inv_n1 elems invoice_data =
     (if length elems \<ge> 2 then
        let entity_code = elems ! 0;
            p = \<lparr>entity_identifier_code = entity_code, name = elems ! 1\<rparr>
        in if entity_code = ''BT'' then invoice_data\<lparr>inv_bill_to := p\<rparr>
           else if entity_code = ''RE'' then invoice_data\<lparr>remit_to := p\<rparr>
           else if entity_code = ''SF'' then invoice_data\<lparr>inv_ship_from := p\<rparr>
           else if entity_code = ''ST'' then invoice_data\<lparr>inv_ship_to := p\<rparr>
           else invoice_data
      else invoice_data)"

definition inv_segment ::
  "(string \<Rightarrow> string + 'v) \<Rightarrow> segment \<Rightarrow> ('v::zero) invoice_data \<Rightarrow> error + 'v invoice_data" where
  "inv_segment float_of seg invoice_data =
     (let sid = segment_id seg; elems = elements seg in
      if sid = ''BIG'' then Inr (inv_big elems invoice_data)
      else if sid = ''IT1'' then
        (case parse_it1 float_of elems of
           Inl e \<Rightarrow> Inl e
         | Inr line_item \<Rightarrow>
             Inr (invoice_data\<lparr>inv_line_items := inv_line_items invoice_data @ [line_item]\<rparr>))
      else if sid = ''N1'' then Inr (inv_n1 elems invoice_data)
      else Inr invoice_data)"

definition parse_invoice ::
  "(string \<Rightarrow> string + 'v) \<Rightarrow> segment list \<Rightarrow> error + ('v::zero) invoice_data" where
  "parse_invoice float_of segs = for_each (inv_segment float_of) segs empty_invoice"

definition asn_bsn :: "string list \<Rightarrow> advance_ship_notice_data \<Rightarrow> advance_ship_notice_data" where
  "asn_bsn elems asn_data =
     (let a1 = (if length elems \<ge> 1 then asn_data\<lparr>shipment_id := elems ! 0\<rparr> else asn_data);
          a2 = (if length elems \<ge> 2 then a1\<lparr>shipment_date := elems ! 1\<rparr> else a1)
      in if length elems \<ge> 3 then a2\<lparr>expected_delivery_date := elems ! 2\<rparr> else a2)"

definition asn_n1 :: "string list \<Rightarrow> advance_ship_notice_data \<Rightarrow> advance_ship_notice_data" where
  "asn_n1 elems asn_data =
     (if length elems \<ge> 2 then
        let entity_code = elems ! 0;
            p = \<lparr>entity_identifier_code = entity_code, name = elems ! 1\<rparr>
        in if entity_code = ''SF'' then asn_data\<lparr>asn_ship_from := p\<rparr>
           else if entity_code = ''ST'' then asn_data\<lparr>asn_ship_to := p\<rparr>
           else if entity_code = ''BT'' then asn_data\<lparr>asn_bill_to := p\<rparr>
           else if entity_code = ''CA'' then asn_data\<lparr>carrier := p\<rparr>
           else asn_data
      else asn_data)"

definition asn_segment :: "segment \<Rightarrow> advance_ship_notice_data \<Rightarrow> advance_ship_notice_data" where
  "asn_segment seg asn_data =
     (let sid = segment_id seg; elems = elements seg in
      if sid = ''BSN'' then asn_bsn elems asn_data
      else if sid = ''HL'' then asn_data
      else if sid = ''N1'' then asn_n1 elems asn_data
      else asn_data)"

definition parse_advance_ship_notice :: "segment list \<Rightarrow> advance_ship_notice_data" where
  \<comment> \<open>No statement of this loop can raise; the loop is a plain left fold.\<close>
  "parse_advance_ship_notice segs = foldl (\<lambda>asn_data seg. asn_segment seg asn_data) empty_ship_notice segs"

definition fa_ak1 ::
  "string list \<Rightarrow> functional_acknowledgment_data \<Rightarrow> functional_acknowledgment_data" where
  "fa_ak1 elems fa_data =
     (let f1 = (if length elems \<ge> 1 then fa_data\<lparr>original_transaction_set_id := elems ! 0\<rparr>
                else fa_data);
          f2 = (if length elems \<ge> 2 then f1\<lparr>original_control_number := elems ! 1\<rparr> else f1)
      in if length elems \<ge> 3 then f2\<lparr>acknowledgment_code := elems ! 2\<rparr> else f2)"

definition fa_ak2 :: "string list \<Rightarrow> transaction_set_acknowledgment" where
  "fa_ak2 elems =
     (let t0 = empty_transaction_ack;
          t1 = (if length elems \<ge> 1 then t0\<lparr>transaction_set_id := elems ! 0\<rparr> else t0);
          t2 = (if length elems \<ge> 2 then t1\<lparr>control_number := elems ! 1\<rparr> else t1)
      in if length elems \<ge> 3 then t2\<lparr>ack_acknowledgment_code := elems ! 2\<rparr> else t2)"

definition fa_segment ::
  "segment \<Rightarrow> functional_acknowledgment_data \<Rightarrow> functional_acknowledgment_data" where
  "fa_segment seg fa_data =
     (let sid = segment_id seg; elems = elements seg in
      if sid = ''AK1'' then fa_ak1 elems fa_data
      else if sid = ''AK2'' then
        fa_data\<lparr>transaction_set_acks := transaction_set_acks fa_data @ [fa_ak2 elems]\<rparr>
      else if sid = ''AK5'' then
        (if length elems \<ge> 1 then fa_data\<lparr>acknowledgment_code := elems ! 0\<rparr> else fa_data)
      else fa_data)"

definition parse_functional_acknowledgment :: "segment list \<Rightarrow> functional_acknowledgment_data" where
  \<comment> \<open>No statement of this loop can raise; the loop is a plain left fold.\<close>
  "parse_functional_acknowledgment segs =
     foldl (\<lambda>fa_data seg. fa_segment seg fa_data) empty_functional_ack segs"

record 'v parse_result =
  success :: bool
  parsed_data_of :: "'v parsed_data option"
  pb_segments :: "segment list option"
  parse_error_message :: "string option"

definition convert_segments_to_pb :: "segment list \<Rightarrow> segment list" where
  \<comment> \<open>The transport's segment message has the four fields of a segment.\<close>
  "convert_segments_to_pb segs =
     map (\<lambda>seg. \<lparr>segment_id = segment_id seg, elements = elements seg,
                  line_number = line_number seg, position = position seg\<rparr>) segs"

definition parse_message_try ::
  "(string \<Rightarrow> string + 'v) \<Rightarrow> string \<Rightarrow> string \<Rightarrow> error + ('v::zero) parse_result" where
  "parse_message_try float_of edi_message message_type =
     (let segs = split_into_segments edi_message;
          finish = (\<lambda>d. Inr \<lparr>success = True, parsed_data_of = Some d,
                              pb_segments = Some (convert_segments_to_pb segs),
                              parse_error_message = None\<rparr>)
      in
      if message_type = ''850'' then
        (case parse_purchase_order float_of segs of
           Inl e \<Rightarrow> Inl e | Inr po_data \<Rightarrow> finish (PurchaseOrderData po_data))
      else if message_type = ''810'' then
        (case parse_invoice float_of segs of
           Inl e \<Rightarrow> Inl e | Inr invoice_data \<Rightarrow> finish (InvoiceData invoice_data))
      else if message_type = ''856'' then
        finish (AdvanceShipNoticeData (parse_advance_ship_notice segs))
      else if message_type = ''997'' then
        finish (FunctionalAcknowledgmentData (parse_functional_acknowledgment segs))
      else
        Inr \<lparr>success = False, parsed_data_of = None, pb_segments = None,
             parse_error_message = Some (''Unsupported message type: '' @ message_type)\<rparr>)"

definition parse_message ::
  "(string \<Rightarrow> string + 'v) \<Rightarrow> string \<Rightarrow> string \<Rightarrow> ('v::zero) parse_result" where
  "parse_message float_of edi_message message_type =
     (case parse_message_try float_of edi_message message_type of
        Inr result \<Rightarrow> result
      | Inl e \<Rightarrow>
          \<lparr>success = False, parsed_data_of = None, pb_segments = None,
           parse_error_message = Some (''Parsing error: '' @ str_error e)\<rparr>)"

section \<open>EdiServiceServicer\<close>

datatype processing_status =
    PROCESSING_STATUS_SUCCESS
  | PROCESSING_STATUS_VALIDATION_ERROR
  | PROCESSING_STATUS_PARSING_ERROR
  | PROCESSING_STATUS_BUSINESS_RULE_ERROR
  | PROCESSING_STATUS_UNSUPPORTED_MESSAGE_TYPE
  | PROCESSING_STATUS_INTERNAL_ERROR

datatype grpc_status_code = INVALID_ARGUMENT | INTERNAL

record edi_message_type =
  type_code :: string
  type_name :: string
  type_description :: string
  supported :: bool
  required_segments_of :: "string list"
  optional_segments_of :: "string list"

definition supported_types :: "edi_message_type list" where
  "supported_types =
    [\<lparr>type_code = ''850'', type_name = ''Purchase Order'',
      type_description = ''EDI 850 Purchase Order transaction set'', supported = True,
      required_segments_of = [''ISA'', ''GS'', ''ST'', ''BEG'', ''SE'', ''GE'', ''IEA''],
      optional_segments_of = [''REF'', ''N1'', ''N3'', ''N4'', ''PO1'', ''CTT'']\<rparr>,
     \<lparr>type_code = ''810'', type_name = ''Invoice'',
      type_description = ''EDI 810 Invoice transaction set'', supported = True,
      required_segments_of = [''ISA'', ''GS'', ''ST'', ''BIG'', ''SE'', ''GE'', ''IEA''],
      optional_segments_of = [''REF'', ''N1'', ''N3'', ''N4'', ''IT1'', ''TDS'', ''CTT'']\<rparr>,
     \<lparr>type_code = ''856'', type_name = ''Advance Ship Notice'',
      type_description = ''EDI 856 Advance Ship Notice transaction set'', supported = True,
      required_segments_of = [''ISA'', ''GS'', ''ST'', ''BSN'', ''SE'', ''GE'', ''IEA''],
      optional_segments_of = [''REF'', ''N1'', ''N3'', ''N4'', ''HL'', ''PRF'', ''TD1'', ''TD5'']\<rparr>,
     \<lparr>type_code = ''997'', type_name = ''Functional Acknowledgment'',
      type_description = ''EDI 997 Functional Acknowledgment transaction set'', supported = True,
      required_segments_of = [''ISA'', ''GS'', ''ST'', ''AK1'', ''SE'', ''GE'', ''IEA''],
      optional_segments_of = [''AK2'', ''AK5'', ''AK9'']\<rparr>]"

definition is_message_type_supported :: "string \<Rightarrow> bool" where
  "is_message_type_supported message_type =
     list_ex (\<lambda>msg_type. type_code msg_type = message_type) supported_types"

record processing_options =
  opt_validate_format :: bool
  opt_validate_business_rules :: bool
  opt_include_parsing_details :: bool
  opt_include_raw_segments :: bool

record process_request =
  req_edi_message :: string
  req_message_type :: string
  req_customer_id :: string
  req_options :: processing_options

record 'v process_response =
  status :: processing_status
  resp_message_type :: string
  processed_at :: string
  resp_messages :: "processing_message list"
  resp_data :: "'v parsed_data option"
  parsed_segments :: "segment list"

text \<open>
  \<open>ProcessEdiMessage\<close>. The clock reading \<open>datetime.now().isoformat()\<close> is the argument
  \<open>now\<close>; what the method sets on the transport context is the second component of the
  result. The options of a request are a message object, which is always true as a
  condition, so \<open>request.options and request.options.validate_format\<close> is the flag.

  The handler of the outer \<open>try\<close> is \<open>internal_error_reply\<close>. The validator and the parser
  catch every exception themselves, so the only statements of the \<open>try\<close> that could raise
  are those that read the data of a successful parse result as a message object, if there
  were none. That case is the handler's branch below; it is never taken, since a successful
  parse result always carries data.
\<close>

definition internal_error_reply ::
  "string \<Rightarrow> string \<Rightarrow> error
     \<Rightarrow> 'v process_response \<times> (grpc_status_code \<times> string) option" where
  "internal_error_reply message_type now e =
     (\<lparr>status = PROCESSING_STATUS_INTERNAL_ERROR, resp_message_type = message_type,
       processed_at = now,
       resp_messages =
         [\<lparr>level = MESSAGE_LEVEL_ERROR, code = ''INTERNAL_ERROR'',
           message = ''Internal server error: '' @ str_error e,
           field = None, msg_line_number = None\<rparr>],
       resp_data = None, parsed_segments = []\<rparr>,
      Some (INTERNAL, ''Internal error: '' @ str_error e))"

definition ProcessEdiMessage ::
  "(string \<Rightarrow> string + 'v) \<Rightarrow> string \<Rightarrow> process_request
     \<Rightarrow> ('v::{zero,ord}) process_response \<times> (grpc_status_code \<times> string) option" where
  "ProcessEdiMessage float_of now request =
     (let message_type = req_message_type request;
          reply = (\<lambda>st msgs.
                     \<lparr>status = st, resp_message_type = message_type, processed_at = now,
                      resp_messages = msgs, resp_data = None, parsed_segments = []\<rparr>)
      in
      if \<not> is_message_type_supported message_type then
        (reply PROCESSING_STATUS_UNSUPPORTED_MESSAGE_TYPE
           [\<lparr>level = MESSAGE_LEVEL_ERROR, code = ''UNSUPPORTED_MESSAGE_TYPE'',
             message = ''Message type '' @ message_type @ '' is not supported'',
             field = None, msg_line_number = None\<rparr>],
         Some (INVALID_ARGUMENT, ''Unsupported message type: '' @ message_type))
      else
        let validation_result = validate_format (req_edi_message request) message_type;
            format_checked = opt_validate_format (req_options request);
            messages1 = (if format_checked \<and> \<not> is_valid validation_result
                         then messages validation_result else [])
        in
        if format_checked \<and> \<not> is_valid validation_result \<and> has_errors validation_result then
          (reply PROCESSING_STATUS_VALIDATION_ERROR messages1, None)
        else
          let parse_result = parse_message float_of (req_edi_message request) message_type in
          if \<not> success parse_result then
            (reply PROCESSING_STATUS_PARSING_ERROR
               [\<lparr>level = MESSAGE_LEVEL_ERROR, code = ''PARSING_ERROR'',
                 message = (case parse_error_message parse_result of Some t \<Rightarrow> t | None \<Rightarrow> []),
                 field = None, msg_line_number = None\<rparr>],
             None)
          else
            (case parsed_data_of parse_result of
               None \<Rightarrow> internal_error_reply message_type now (AttributeError ''NoneType'')
             | Some parsed \<Rightarrow>
                 let business_validation = validate_business_rules parsed message_type;
                     rules_checked = opt_validate_business_rules (req_options request);
                     messages2 = messages1 @
                                   (if rules_checked \<and> \<not> is_valid business_validation
                                    then messages business_validation else [])
                 in
                 if rules_checked \<and> \<not> is_valid business_validation
                      \<and> has_errors business_validation then
                   (reply PROCESSING_STATUS_BUSINESS_RULE_ERROR messages2, None)
                 else
                   ((reply PROCESSING_STATUS_SUCCESS messages2)
                      \<lparr>resp_data :=
                         (if message_type = ''850'' then Some parsed
                          else if message_type = ''810'' then Some parsed
                          else if message_type = ''856'' then Some parsed
                          else if message_type = ''997'' then Some parsed
                          else None),
                       parsed_segments :=
                         (if opt_include_raw_segments (req_options request)
                          then (case pb_segments parse_result of Some segs \<Rightarrow> segs | None \<Rightarrow> [])
                          else [])\<rparr>,
                    None)))"

record validate_request =
  vreq_edi_message :: string
  vreq_message_type :: string
  vreq_customer_id :: string

record validate_response =
  vresp_status :: processing_status
  vresp_messages :: "processing_message list"
  edi_version :: string
  detected_message_type :: string

definition ValidateEdiMessage :: "validate_request \<Rightarrow> validate_response" where
  "ValidateEdiMessage request =
     (if \<not> is_message_type_supported (vreq_message_type request) then
        \<lparr>vresp_status = PROCESSING_STATUS_UNSUPPORTED_MESSAGE_TYPE,
         vresp_messages =
           [\<lparr>level = MESSAGE_LEVEL_ERROR, code = ''UNSUPPORTED_MESSAGE_TYPE'',
             message = ''Message type '' @ vreq_message_type request @ '' is not supported'',
             field = None, msg_line_number = None\<rparr>],
         edi_version = [], detected_message_type = []\<rparr>
      else
        let validation_result =
              validate_format (vreq_edi_message request) (vreq_message_type request)
        in \<lparr>vresp_status = (if is_valid validation_result then PROCESSING_STATUS_SUCCESS
                             else PROCESSING_STATUS_VALIDATION_ERROR),
            vresp_messages = messages validation_result,
            edi_version = detect_edi_version (vreq_edi_message request),
            detected_message_type = detect_message_type (vreq_edi_message request)\<rparr>)"

section \<open>Notions used to state the properties\<close>

definition is_error :: "processing_message \<Rightarrow> bool" where
  "is_error m = (level m = MESSAGE_LEVEL_ERROR)"

definition consistent :: "validation_result \<Rightarrow> bool" where
  \<comment> \<open>The invariant of a validation outcome.\<close>
  "consistent r =
     (has_errors r = list_ex is_error (messages r) \<and> is_valid r = (\<not> has_errors r))"

definition count_code :: "string \<Rightarrow> processing_message list \<Rightarrow> nat" where
  "count_code c ms = length (filter (\<lambda>m. code m = c) ms)"


definition party_segment :: "string \<Rightarrow> segment \<Rightarrow> bool" where
  \<comment> \<open>A party segment the extractors read for role \<open>r\<close>: an \<open>N1\<close> segment with the role code
      and a name, that is with at least two elements.\<close>
  "party_segment r seg =
     (segment_id seg = ''N1'' \<and> 2 \<le> length (elements seg) \<and> elements seg ! 0 = r)"

definition po_slot :: "string \<Rightarrow> 'v purchase_order_data \<Rightarrow> party option" where
  "po_slot r po_data =
     (if r = ''BY'' then Some (buyer po_data)
      else if r = ''SE'' then Some (seller po_data)
      else if r = ''ST'' then Some (po_ship_to po_data)
      else if r = ''BT'' then Some (po_bill_to po_data)
      else None)"

definition inv_slot :: "string \<Rightarrow> 'v invoice_data \<Rightarrow> party option" where
  "inv_slot r invoice_data =
     (if r = ''BT'' then Some (inv_bill_to invoice_data)
      else if r = ''RE'' then Some (remit_to invoice_data)
      else if r = ''SF'' then Some (inv_ship_from invoice_data)
      else if r = ''ST'' then Some (inv_ship_to invoice_data)
      else None)"

definition asn_slot :: "string \<Rightarrow> advance_ship_notice_data \<Rightarrow> party option" where
  "asn_slot r asn_data =
     (if r = ''SF'' then Some (asn_ship_from asn_data)
      else if r = ''ST'' then Some (asn_ship_to asn_data)
      else if r = ''BT'' then Some (asn_bill_to asn_data)
      else if r = ''CA'' then Some (carrier asn_data)
      else None)"

definition writes_ack_code :: "segment \<Rightarrow> bool" where
  \<comment> \<open>The segments that assign \<open>acknowledgment_code\<close> of a functional acknowledgment.\<close>
  "writes_ack_code seg =
     ((segment_id seg = ''AK1'' \<and> 3 \<le> length (elements seg))
      \<or> (segment_id seg = ''AK5'' \<and> 1 \<le> length (elements seg)))"






section \<open>Sample inputs\<close>

definition mk_segment :: "string \<Rightarrow> string list \<Rightarrow> nat \<Rightarrow> segment" where
  \<comment> \<open>The segment of line and position \<open>n\<close>, for the examples.\<close>
  "mk_segment sid elems n = \<lparr>segment_id = sid, elements = elems, line_number = n, position = n\<rparr>"

definition digits_value :: "string \<Rightarrow> nat" where
  "digits_value x = foldl (\<lambda>n c. 10 * n + (of_char c - 48)) 0 x"

definition sample_float :: "string \<Rightarrow> string + real" where
  \<comment> \<open>Stands for \<open>float\<close> in the examples: a text of decimal digits is its number; every
      other text is rejected here (\<open>float\<close> accepts more, such as signs and fractions).\<close>
  "sample_float x =
     (if x \<noteq> [] \<and> list_all is_digit x then Inr (of_nat (digits_value x))
      else Inl (''could not convert string to float: '' @ [CHR 0x27] @ x @ [CHR 0x27]))"

definition warning_only_997 :: string where
  \<comment> \<open>A complete 997 document whose first ISA element has three characters (limit 2).\<close>
  "warning_only_997 =
     ''ISA*000*a*a*a*a*a*a*a*a*a*a*a*a*a*a*a\<newline>GS*FA\<newline>ST*997*0001\<newline>AK1*850*0001*A\<newline>SE*1*0001\<newline>GE*1*1\<newline>IEA*1*1''"

definition request_997 :: process_request where
  "request_997 =
     \<lparr>req_edi_message = warning_only_997, req_message_type = ''997'',
      req_customer_id = ''CUSTOMER123'',
      req_options = \<lparr>opt_validate_format = True, opt_validate_business_rules = True,
                      opt_include_parsing_details = True, opt_include_raw_segments = True\<rparr>\<rparr>"


section \<open>Segmenter: properties\<close>

lemma split_on_nonempty: "split_on sep s \<noteq> []"
  by (induction s) (auto split: list.splits)

lemma head_and_rest: "2 \<le> length ps \<Longrightarrow> (ps ! 0) # drop 1 ps = ps"
  by (cases ps) auto

lemma split_loop_step_keep:
  assumes "2 \<le> length (split_on (CHR ''*'') (strip l))"
  shows "split_loop i (l # ls) segs =
     split_loop (Suc i) ls
       (segs @ [\<lparr>segment_id = split_on (CHR ''*'') (strip l) ! 0,
                  elements = drop 1 (split_on (CHR ''*'') (strip l)),
                  line_number = i + 1, position = length segs + 1\<rparr>])"
proof -
  from assms have "strip l \<noteq> []" by auto
  with assms show ?thesis by (simp add: Let_def)
qed

lemma split_loop_step_skip:
  assumes "\<not> 2 \<le> length (split_on (CHR ''*'') (strip l))"
  shows "split_loop i (l # ls) segs = split_loop (Suc i) ls segs"
  using assms by (simp add: Let_def)

lemma split_loop_view:
  "map seg_view (split_loop i lines segs) =
     map seg_view segs @ filter kept (numbered_parts i lines)"
proof (induction lines arbitrary: i segs)
  case Nil
  show ?case by (simp add: numbered_parts_def)
next
  case (Cons l ls)
  have tl_eq: "numbered_parts i (l # ls) =
      (Suc i, split_on (CHR ''*'') (strip l)) # numbered_parts (Suc i) ls"
    by (simp add: numbered_parts_def)
  show ?case
  proof (cases "2 \<le> length (split_on (CHR ''*'') (strip l))")
    case True
    have k: "kept (Suc i, split_on (CHR ''*'') (strip l))"
      using True by (simp add: kept_def)
    have v: "seg_view \<lparr>segment_id = split_on (CHR ''*'') (strip l) ! 0,
                  elements = drop 1 (split_on (CHR ''*'') (strip l)),
                  line_number = i + 1, position = length segs + 1\<rparr>
             = (Suc i, split_on (CHR ''*'') (strip l))"
      using head_and_rest [OF True] by (simp add: seg_view_def)
    show ?thesis
      unfolding split_loop_step_keep [OF True] Cons.IH tl_eq
      using k v by simp
  next
    case False
    have k: "\<not> kept (Suc i, split_on (CHR ''*'') (strip l))"
      using False by (simp add: kept_def)
    show ?thesis
      unfolding split_loop_step_skip [OF False] Cons.IH tl_eq
      using k by simp
  qed
qed

lemma split_loop_grows: "length segs \<le> length (split_loop i lines segs)"
proof (induction lines arbitrary: i segs)
  case Nil
  show ?case by simp
next
  case (Cons l ls)
  show ?case
  proof (cases "2 \<le> length (split_on (CHR ''*'') (strip l))")
    case True
    show ?thesis
      unfolding split_loop_step_keep [OF True]
      using Cons.IH [of "segs @ [\<lparr>segment_id = split_on (CHR ''*'') (strip l) ! 0,
                  elements = drop 1 (split_on (CHR ''*'') (strip l)),
                  line_number = i + 1, position = length segs + 1\<rparr>]" "Suc i"]
      by simp
  next
    case False
    show ?thesis
      unfolding split_loop_step_skip [OF False] by (rule Cons.IH)
  qed
qed

lemma split_loop_positions:
  "map position (split_loop i lines segs) =
     map position segs @ [Suc (length segs)..<Suc (length (split_loop i lines segs))]"
proof (induction lines arbitrary: i segs)
  case Nil
  show ?case by simp
next
  case (Cons l ls)
  show ?case
  proof (cases "2 \<le> length (split_on (CHR ''*'') (strip l))")
    case True
    define s where "s = \<lparr>segment_id = split_on (CHR ''*'') (strip l) ! 0,
        elements = drop 1 (split_on (CHR ''*'') (strip l)),
        line_number = i + 1, position = length segs + 1\<rparr>"
    have step: "split_loop i (l # ls) segs = split_loop (Suc i) ls (segs @ [s])"
      unfolding s_def by (rule split_loop_step_keep [OF True])
    have len: "Suc (length segs) \<le> length (split_loop (Suc i) ls (segs @ [s]))"
      using split_loop_grows [of "segs @ [s]" "Suc i" ls] by simp
    have "[Suc (length segs)..<Suc (length (split_loop (Suc i) ls (segs @ [s])))] =
          Suc (length segs) # [Suc (Suc (length segs))..<Suc (length (split_loop (Suc i) ls (segs @ [s])))]"
      using len by (simp add: upt_conv_Cons)
    then show ?thesis
      unfolding step by (simp add: Cons.IH s_def)
  next
    case False
    show ?thesis
      unfolding split_loop_step_skip [OF False] by (rule Cons.IH)
  qed
qed

text \<open>
  Claim C8, as amended. The segmenter is a total function, so it returns for every raw
  text. The positions of the returned segments are \<open>1, 2, ..., n\<close> in output order. The
  segments are exactly the lines that split into at least two parts at the element
  separator, in order (an empty line splits into one part, so it is skipped as well),
  each with the parts of its line and with the 1-based number of its line among the
  lines of the \<^emph>\<open>stripped\<close> text: blank lines before the first non-blank line are not
  counted, skipped lines after it are.
\<close>

theorem split_into_segments_positions_and_lines:
  "map position (split_into_segments raw) = [1..<Suc (length (split_into_segments raw))]
   \<and> map seg_view (split_into_segments raw)
       = filter kept (numbered_parts 0 (split_on (CHR 0x0A) (strip raw)))"
  unfolding split_into_segments_def
  using split_loop_positions [of 0 "split_on (CHR 0x0A) (strip raw)" "[]"]
        split_loop_view [of 0 "split_on (CHR 0x0A) (strip raw)" "[]"]
  by simp

text \<open>
  Claim C8 as stated fails where the raw text starts with a blank line: the segment read
  from the second raw line carries line number 1, and the first raw line is empty.
\<close>

theorem split_into_segments_line_number_counterexample:
  "split_into_segments ''\<newline>ISA*a''
     = [\<lparr>segment_id = ''ISA'', elements = [''a''], line_number = 1, position = 1\<rparr>]
   \<and> split_on (CHR 0x0A) ''\<newline>ISA*a'' ! (1 - 1) = ''''
   \<and> split_on (CHR 0x0A) ''\<newline>ISA*a'' ! (2 - 1) = ''ISA*a''"
  by (simp add: split_into_segments_def strip_def is_space_def)

section \<open>Format validation: properties\<close>

lemma all_errors_ex: "list_all is_error ms \<Longrightarrow> list_ex is_error ms = (ms \<noteq> [])"
  by (cases ms) auto

lemma isa_lengths_loop_ok:
  "\<exists>ms. isa_lengths_loop i ls es = Inr ms
        \<and> list_all (\<lambda>m. \<not> is_error m \<and> code m = ''ISA_ELEMENT_TOO_LONG'') ms"
  by (induction i ls es rule: isa_lengths_loop.induct)
     (auto simp: py_index_def isa_too_long_message_def is_error_def)

lemma sequence_loop_ok:
  "\<exists>ms. sequence_loop i ex ids = Inr ms
        \<and> list_all (\<lambda>m. is_error m \<and> code m = ''INVALID_SEGMENT_ORDER'') ms"
  by (induction i ex ids rule: sequence_loop.induct)
     (auto simp: py_index_def segment_order_message_def is_error_def)

lemma required_loop_ok:
  "list_all (\<lambda>m. is_error m \<and> code m = ''MISSING_REQUIRED_SEGMENT'') (required_loop rs ids)"
  by (induction rs) (auto simp: missing_required_message_def is_error_def)

lemma elements_loop_ok:
  "list_all (\<lambda>m. is_error m \<and> (code m = ''INSUFFICIENT_ST_ELEMENTS''
                                \<or> code m = ''INSUFFICIENT_BEG_ELEMENTS'')) (elements_loop segs)"
  by (induction segs)
     (auto simp: insufficient_st_message_def insufficient_beg_message_def is_error_def)

lemma list_all_weaken: "list_all P xs \<Longrightarrow> (\<And>x. P x \<Longrightarrow> Q x) \<Longrightarrow> list_all Q xs"
  by (induction xs) auto

lemma no_error_ex: "list_all (\<lambda>m. \<not> is_error m) ms \<Longrightarrow> \<not> list_ex is_error ms"
  by (induction ms) auto

lemma validate_isa_segment_not_isa:
  "segment_id s \<noteq> ''ISA'' \<Longrightarrow>
   validate_isa_segment s
     = Inr \<lparr>is_valid = False, messages = [invalid_isa_message], has_errors = True\<rparr>"
  by (simp add: validate_isa_segment_def)

lemma validate_isa_segment_ok:
  "\<exists>r. validate_isa_segment s = Inr r \<and> consistent r"
proof (cases "segment_id s = ''ISA''")
  case False
  then show ?thesis
    by (simp add: validate_isa_segment_not_isa consistent_def is_error_def invalid_isa_message_def)
next
  case True
  obtain ws where ws: "isa_lengths_loop 0 isa_element_lengths (elements s) = Inr ws"
    and w: "list_all (\<lambda>m. \<not> is_error m \<and> code m = ''ISA_ELEMENT_TOO_LONG'') ws"
    using isa_lengths_loop_ok by blast
  have "\<not> list_ex is_error ws"
    using w by (intro no_error_ex) (auto elim: list_all_weaken)
  with True ws show ?thesis
    by (simp add: validate_isa_segment_def consistent_def Let_def is_error_def
        insufficient_isa_message_def)
qed

lemma validate_segment_structure_ok:
  "\<exists>oms. sequence_loop 0 [''ISA'', ''GS'', ''ST''] (map segment_id segs) = Inr oms
     \<and> validate_segment_structure segs mt =
         Inr \<lparr>is_valid = (oms @ (if last_three (map segment_id segs) \<noteq> [''SE'', ''GE'', ''IEA'']
                                   then [closing_segments_message] else []) = []),
              messages = oms @ (if last_three (map segment_id segs) \<noteq> [''SE'', ''GE'', ''IEA'']
                                then [closing_segments_message] else []),
              has_errors = (oms @ (if last_three (map segment_id segs) \<noteq> [''SE'', ''GE'', ''IEA'']
                                   then [closing_segments_message] else []) \<noteq> [])\<rparr>
     \<and> list_all (\<lambda>m. is_error m \<and> code m = ''INVALID_SEGMENT_ORDER'') oms"
proof -
  obtain oms where o: "sequence_loop 0 [''ISA'', ''GS'', ''ST''] (map segment_id segs) = Inr oms"
    and e: "list_all (\<lambda>m. is_error m \<and> code m = ''INVALID_SEGMENT_ORDER'') oms"
    using sequence_loop_ok by blast
  show ?thesis
    using o e by (simp add: validate_segment_structure_def Let_def)
qed

lemma validate_segment_structure_consistent:
  "\<exists>r. validate_segment_structure segs mt = Inr r \<and> consistent r \<and> list_all is_error (messages r)"
proof -
  obtain oms where
    r: "validate_segment_structure segs mt =
         Inr \<lparr>is_valid = (oms @ (if last_three (map segment_id segs) \<noteq> [''SE'', ''GE'', ''IEA'']
                                   then [closing_segments_message] else []) = []),
              messages = oms @ (if last_three (map segment_id segs) \<noteq> [''SE'', ''GE'', ''IEA'']
                                then [closing_segments_message] else []),
              has_errors = (oms @ (if last_three (map segment_id segs) \<noteq> [''SE'', ''GE'', ''IEA'']
                                   then [closing_segments_message] else []) \<noteq> [])\<rparr>"
    and e: "list_all (\<lambda>m. is_error m \<and> code m = ''INVALID_SEGMENT_ORDER'') oms"
    using validate_segment_structure_ok by blast
  have e': "list_all is_error oms" using e by (auto elim: list_all_weaken)
  have c: "is_error closing_segments_message"
    by (simp add: is_error_def closing_segments_message_def)
  have all: "list_all is_error (oms @ (if last_three (map segment_id segs) \<noteq> [''SE'', ''GE'', ''IEA'']
                                then [closing_segments_message] else []))"
    using e' c by simp
  show ?thesis
    unfolding r consistent_def using all_errors_ex [OF all] all by simp
qed

lemma validate_segment_elements_consistent:
  "consistent (validate_segment_elements segs mt)
   \<and> list_all is_error (messages (validate_segment_elements segs mt))"
proof -
  have all: "list_all is_error (elements_loop segs)"
    using elements_loop_ok [of segs] by (auto elim: list_all_weaken)
  show ?thesis
    using all_errors_ex [OF all] all
    by (simp add: validate_segment_elements_def consistent_def Let_def)
qed

lemma validate_format_try_unsupported:
  "map_of segment_patterns mt = None \<Longrightarrow>
   validate_format_try raw mt =
     Inr \<lparr>is_valid = False, messages = [unsupported_type_message mt], has_errors = True\<rparr>"
  by (simp add: validate_format_try_def)

lemma validate_format_try_empty:
  "map_of segment_patterns mt = Some pat \<Longrightarrow> split_into_segments raw = [] \<Longrightarrow>
   validate_format_try raw mt =
     Inr \<lparr>is_valid = False, messages = [empty_message_message], has_errors = True\<rparr>"
  by (simp add: validate_format_try_def)

lemma validate_format_try_checks:
  assumes "map_of segment_patterns mt = Some pat"
    and "split_into_segments raw = first # others"
  shows "\<exists>isa sv.
     validate_isa_segment first = Inr isa \<and> consistent isa
     \<and> validate_segment_structure (first # others) mt = Inr sv \<and> consistent sv
     \<and> validate_format_try raw mt =
         Inr \<lparr>is_valid = \<not> (has_errors isa
                             \<or> required_loop (fst pat) (map segment_id (first # others)) \<noteq> []
                             \<or> has_errors sv
                             \<or> has_errors (validate_segment_elements (first # others) mt)),
              messages = messages isa
                         @ required_loop (fst pat) (map segment_id (first # others))
                         @ messages sv
                         @ messages (validate_segment_elements (first # others) mt),
              has_errors = (has_errors isa
                             \<or> required_loop (fst pat) (map segment_id (first # others)) \<noteq> []
                             \<or> has_errors sv
                             \<or> has_errors (validate_segment_elements (first # others) mt))\<rparr>"
proof -
  obtain isa where isa: "validate_isa_segment first = Inr isa" "consistent isa"
    using validate_isa_segment_ok by blast
  obtain sv where sv: "validate_segment_structure (first # others) mt = Inr sv" "consistent sv"
    using validate_segment_structure_consistent by blast
  have "validate_format_try raw mt =
         Inr \<lparr>is_valid = \<not> (has_errors isa
                             \<or> required_loop (fst pat) (map segment_id (first # others)) \<noteq> []
                             \<or> has_errors sv
                             \<or> has_errors (validate_segment_elements (first # others) mt)),
              messages = messages isa
                         @ required_loop (fst pat) (map segment_id (first # others))
                         @ messages sv
                         @ messages (validate_segment_elements (first # others) mt),
              has_errors = (has_errors isa
                             \<or> required_loop (fst pat) (map segment_id (first # others)) \<noteq> []
                             \<or> has_errors sv
                             \<or> has_errors (validate_segment_elements (first # others) mt))\<rparr>"
    using assms isa(1) sv(1)
    by (auto simp: validate_format_try_def py_index_def Let_def)
  with isa sv show ?thesis by blast
qed

lemma validate_format_try_returns:
  "\<exists>r. validate_format_try raw mt = Inr r \<and> consistent r"
proof (cases "map_of segment_patterns mt")
  case None
  then show ?thesis
    by (simp add: validate_format_try_unsupported consistent_def is_error_def
        unsupported_type_message_def)
next
  case (Some pat)
  show ?thesis
  proof (cases "split_into_segments raw")
    case Nil
    with Some show ?thesis
      by (simp add: validate_format_try_empty consistent_def is_error_def
          empty_message_message_def)
  next
    case (Cons first others)
    obtain isa sv where isa: "consistent isa" and sv: "consistent sv"
      and r: "validate_format_try raw mt =
         Inr \<lparr>is_valid = \<not> (has_errors isa
                             \<or> required_loop (fst pat) (map segment_id (first # others)) \<noteq> []
                             \<or> has_errors sv
                             \<or> has_errors (validate_segment_elements (first # others) mt)),
              messages = messages isa
                         @ required_loop (fst pat) (map segment_id (first # others))
                         @ messages sv
                         @ messages (validate_segment_elements (first # others) mt),
              has_errors = (has_errors isa
                             \<or> required_loop (fst pat) (map segment_id (first # others)) \<noteq> []
                             \<or> has_errors sv
                             \<or> has_errors (validate_segment_elements (first # others) mt))\<rparr>"
      using validate_format_try_checks [OF Some Cons] by blast
    have req: "list_ex is_error (required_loop (fst pat) (map segment_id (first # others)))
                = (required_loop (fst pat) (map segment_id (first # others)) \<noteq> [])"
      using required_loop_ok [of "fst pat" "map segment_id (first # others)"]
      by (intro all_errors_ex) (auto elim: list_all_weaken)
    have el: "consistent (validate_segment_elements (first # others) mt)"
      using validate_segment_elements_consistent by blast
    show ?thesis
      unfolding r using isa sv el req by (simp add: consistent_def)
  qed
qed

lemma validate_format_is_try:
  "validate_format_try raw mt = Inr r \<Longrightarrow> validate_format raw mt = r"
  by (simp add: validate_format_def)

lemma validate_format_consistent: "consistent (validate_format raw mt)"
  using validate_format_try_returns [of raw mt] validate_format_is_try by auto

section \<open>Business rules: properties\<close>

lemma error_message_is_error: "is_error (error_message c t f)"
  by (simp add: is_error_def error_message_def)

lemma po_items_loop_errors: "list_all is_error (po_items_loop i items)"
  by (induction i items rule: po_items_loop.induct) (simp_all add: error_message_is_error)

lemma consistent_of_errors:
  "list_all is_error ms \<Longrightarrow>
   consistent \<lparr>is_valid = (ms = []), messages = ms, has_errors = (ms \<noteq> [])\<rparr>"
  by (simp add: consistent_def all_errors_ex)

lemma validate_purchase_order_rules_consistent: "consistent (validate_purchase_order_rules po)"
  unfolding validate_purchase_order_rules_def Let_def
  by (rule consistent_of_errors) (simp add: error_message_is_error po_items_loop_errors)

lemma validate_invoice_rules_consistent: "consistent (validate_invoice_rules i)"
  unfolding validate_invoice_rules_def Let_def
  by (rule consistent_of_errors) (simp add: error_message_is_error)

lemma validate_asn_rules_consistent: "consistent (validate_asn_rules a)"
  unfolding validate_asn_rules_def Let_def
  by (rule consistent_of_errors) (simp add: error_message_is_error)

lemma validate_functional_ack_rules_consistent: "consistent (validate_functional_ack_rules f)"
  unfolding validate_functional_ack_rules_def Let_def
  by (rule consistent_of_errors) (simp add: error_message_is_error)

lemma consistent_copy:
  "consistent sub \<Longrightarrow>
   consistent \<lparr>is_valid = \<not> has_errors sub, messages = messages sub, has_errors = has_errors sub\<rparr>"
  by (simp add: consistent_def)

lemma validate_business_rules_try_consistent:
  "validate_business_rules_try parsed mt = Inr r \<Longrightarrow> consistent r"
  unfolding validate_business_rules_try_def Let_def
  by (auto split: if_splits parsed_data.splits
      intro!: consistent_copy validate_purchase_order_rules_consistent
        validate_invoice_rules_consistent validate_asn_rules_consistent
        validate_functional_ack_rules_consistent
      simp: consistent_def [of "\<lparr>is_valid = True, messages = [], has_errors = False\<rparr>"])

lemma validate_business_rules_consistent: "consistent (validate_business_rules parsed mt)"
proof (cases "validate_business_rules_try parsed mt")
  case (Inl e)
  then show ?thesis
    by (simp add: validate_business_rules_def consistent_def is_error_def)
next
  case (Inr r)
  then show ?thesis
    using validate_business_rules_try_consistent [OF Inr]
    by (simp add: validate_business_rules_def)
qed

text \<open>
  Claim C9. Every outcome returned by \<open>validate_format\<close> and by
  \<open>validate_business_rules\<close> has \<open>has_errors\<close> true exactly when one of its messages has
  Error level, and \<open>is_valid\<close> is the negation of \<open>has_errors\<close>; so messages of Warning or
  Info level alone never set \<open>has_errors\<close>. This covers the early returns and the
  exception handlers of both functions.
\<close>

theorem validation_outcomes_consistent:
  "has_errors (validate_format raw mt) = list_ex is_error (messages (validate_format raw mt))
   \<and> is_valid (validate_format raw mt) = (\<not> has_errors (validate_format raw mt))
   \<and> has_errors (validate_business_rules parsed mt)
       = list_ex is_error (messages (validate_business_rules parsed mt))
   \<and> is_valid (validate_business_rules parsed mt)
       = (\<not> has_errors (validate_business_rules parsed mt))"
  using validate_format_consistent [of raw mt]
        validate_business_rules_consistent [of parsed mt]
  by (simp add: consistent_def)

lemmas validator_eval =
  validate_format_def validate_format_try_def split_into_segments_def strip_def is_space_def
  segment_patterns_def py_index_def validate_isa_segment_def isa_element_lengths_def
  validate_segment_structure_def validate_segment_elements_def last_three_def Let_def
  invalid_isa_message_def insufficient_isa_message_def isa_too_long_message_def
  missing_required_message_def segment_order_message_def closing_segments_message_def
  insufficient_st_message_def insufficient_beg_message_def unsupported_type_message_def
  empty_message_message_def

lemma count_code_append: "count_code c (xs @ ys) = count_code c xs + count_code c ys"
  by (simp add: count_code_def)

lemma count_code_Cons:
  "count_code c (m # ms) = (if code m = c then 1 else 0) + count_code c ms"
  by (simp add: count_code_def)

lemma count_code_none: "list_all (\<lambda>m. code m \<noteq> c) ms \<Longrightarrow> count_code c ms = 0"
  by (induction ms) (auto simp: count_code_def)

lemma validate_isa_segment_codes:
  assumes "validate_isa_segment s = Inr r"
  shows "list_all (\<lambda>m. code m = ''INVALID_ISA_SEGMENT'' \<or> code m = ''INSUFFICIENT_ISA_ELEMENTS''
                        \<or> code m = ''ISA_ELEMENT_TOO_LONG'') (messages r)"
proof (cases "segment_id s = ''ISA''")
  case False
  with assms show ?thesis
    by (auto simp: validate_isa_segment_not_isa invalid_isa_message_def)
next
  case True
  obtain ws where ws: "isa_lengths_loop 0 isa_element_lengths (elements s) = Inr ws"
    and w: "list_all (\<lambda>m. \<not> is_error m \<and> code m = ''ISA_ELEMENT_TOO_LONG'') ws"
    using isa_lengths_loop_ok by blast
  have w': "list_all (\<lambda>m. code m = ''INVALID_ISA_SEGMENT'' \<or> code m = ''INSUFFICIENT_ISA_ELEMENTS''
                        \<or> code m = ''ISA_ELEMENT_TOO_LONG'') ws"
    using w by (auto elim: list_all_weaken)
  from assms True ws have "messages r =
      (if length (elements s) < 16 then [insufficient_isa_message] else []) @ ws"
    by (auto simp: validate_isa_segment_def Let_def)
  with w' show ?thesis
    by (simp add: insufficient_isa_message_def)
qed

lemma last_three_short: "length ids < 3 \<Longrightarrow> last_three ids \<noteq> [a, b, c]"
proof
  assume "length ids < 3" and "last_three ids = [a, b, c]"
  then have "length (last_three ids) = 3" by simp
  with \<open>length ids < 3\<close> show False by (simp add: last_three_def)
qed

lemma closing_code: "code closing_segments_message = ''INVALID_CLOSING_SEGMENTS''"
  by (simp add: closing_segments_message_def)

lemma short_nonempty_closing:
  assumes sup: "map_of segment_patterns mt = Some pat"
    and segs: "split_into_segments raw = first # others"
    and short: "length (first # others) < 3"
  shows "count_code ''INVALID_CLOSING_SEGMENTS'' (messages (validate_format raw mt)) = 1
         \<and> list_ex (\<lambda>m. m = closing_segments_message) (messages (validate_format raw mt))
         \<and> has_errors (validate_format raw mt)"
proof -
  let ?ids = "map segment_id (first # others)"
  let ?req = "required_loop (fst pat) ?ids"
  let ?el = "validate_segment_elements (first # others) mt"
  obtain isa sv where isa: "validate_isa_segment first = Inr isa"
    and sv: "validate_segment_structure (first # others) mt = Inr sv"
    and r: "validate_format_try raw mt =
         Inr \<lparr>is_valid = \<not> (has_errors isa \<or> ?req \<noteq> [] \<or> has_errors sv \<or> has_errors ?el),
              messages = messages isa @ ?req @ messages sv @ messages ?el,
              has_errors = (has_errors isa \<or> ?req \<noteq> [] \<or> has_errors sv \<or> has_errors ?el)\<rparr>"
    using validate_format_try_checks [OF sup segs] by blast
  obtain oms where svr: "validate_segment_structure (first # others) mt =
         Inr \<lparr>is_valid = (oms @ (if last_three ?ids \<noteq> [''SE'', ''GE'', ''IEA'']
                                   then [closing_segments_message] else []) = []),
              messages = oms @ (if last_three ?ids \<noteq> [''SE'', ''GE'', ''IEA'']
                                then [closing_segments_message] else []),
              has_errors = (oms @ (if last_three ?ids \<noteq> [''SE'', ''GE'', ''IEA'']
                                   then [closing_segments_message] else []) \<noteq> [])\<rparr>"
    and oms: "list_all (\<lambda>m. is_error m \<and> code m = ''INVALID_SEGMENT_ORDER'') oms"
    using validate_segment_structure_ok [of "first # others" mt] by blast
  have ne: "last_three ?ids \<noteq> [''SE'', ''GE'', ''IEA'']"
    using short by (intro last_three_short) simp
  have svm: "messages sv = oms @ [closing_segments_message]" and svh: "has_errors sv"
    using sv svr ne by auto
  have c_isa: "count_code ''INVALID_CLOSING_SEGMENTS'' (messages isa) = 0"
    using validate_isa_segment_codes [OF isa]
    by (intro count_code_none) (auto elim: list_all_weaken)
  have c_req: "count_code ''INVALID_CLOSING_SEGMENTS'' ?req = 0"
    using required_loop_ok [of "fst pat" ?ids]
    by (intro count_code_none) (auto elim: list_all_weaken)
  have c_oms: "count_code ''INVALID_CLOSING_SEGMENTS'' oms = 0"
    using oms by (intro count_code_none) (auto elim: list_all_weaken)
  have c_el: "count_code ''INVALID_CLOSING_SEGMENTS'' (messages ?el) = 0"
    using elements_loop_ok [of "first # others"]
    by (intro count_code_none) (auto simp: validate_segment_elements_def Let_def elim: list_all_weaken)
  have vf: "validate_format raw mt =
         \<lparr>is_valid = \<not> (has_errors isa \<or> ?req \<noteq> [] \<or> has_errors sv \<or> has_errors ?el),
              messages = messages isa @ ?req @ messages sv @ messages ?el,
              has_errors = (has_errors isa \<or> ?req \<noteq> [] \<or> has_errors sv \<or> has_errors ?el)\<rparr>"
    using r by (rule validate_format_is_try)
  show ?thesis
    unfolding vf using svh c_isa c_req c_oms c_el
    by (simp add: svm count_code_append count_code_Cons closing_code)
qed

text \<open>
  Claim C1, as amended. For an input of fewer than three segments \<open>validate_format\<close> never
  faults: the body of its \<open>try\<close> returns a result (the slice of the last three ids cannot
  raise). With no segment the only message is \<open>EMPTY_MESSAGE\<close>. With one or two segments
  of a supported type the closing-sequence check is not skipped: a slice shorter than three
  never equals \<open>SE, GE, IEA\<close>, so exactly one \<open>INVALID_CLOSING_SEGMENTS\<close> Error is appended
  and the outcome has errors.
\<close>

theorem short_input_closing_check:
  assumes "length (split_into_segments raw) < 3"
  shows "(\<exists>r. validate_format_try raw mt = Inr r)
     \<and> (map_of segment_patterns mt \<noteq> None \<and> split_into_segments raw = []
          \<longrightarrow> messages (validate_format raw mt) = [empty_message_message])
     \<and> (map_of segment_patterns mt \<noteq> None \<and> split_into_segments raw \<noteq> []
          \<longrightarrow> count_code ''INVALID_CLOSING_SEGMENTS'' (messages (validate_format raw mt)) = 1
              \<and> list_ex (\<lambda>m. m = closing_segments_message) (messages (validate_format raw mt))
              \<and> has_errors (validate_format raw mt))"
proof (intro conjI impI)
  show "\<exists>r. validate_format_try raw mt = Inr r"
    using validate_format_try_returns [of raw mt] by blast
next
  assume "map_of segment_patterns mt \<noteq> None \<and> split_into_segments raw = []"
  then obtain pat where "map_of segment_patterns mt = Some pat" "split_into_segments raw = []"
    by auto
  then show "messages (validate_format raw mt) = [empty_message_message]"
    using validate_format_is_try [OF validate_format_try_empty] by simp
next
  assume a: "map_of segment_patterns mt \<noteq> None \<and> split_into_segments raw \<noteq> []"
  then obtain pat first others where
    p: "map_of segment_patterns mt = Some pat" and s: "split_into_segments raw = first # others"
    by (cases "split_into_segments raw") auto
  have l: "length (first # others) < 3" using assms s by simp
  show "count_code ''INVALID_CLOSING_SEGMENTS'' (messages (validate_format raw mt)) = 1"
    using short_nonempty_closing [OF p s l] by blast
  show "list_ex (\<lambda>m. m = closing_segments_message) (messages (validate_format raw mt))"
    using short_nonempty_closing [OF p s l] by blast
  show "has_errors (validate_format raw mt)"
    using short_nonempty_closing [OF p s l] by blast
qed


text \<open>Claim C1, witness: a two-segment text and the empty text, type 850.\<close>

theorem short_input_closing_check_witness:
  "length (split_into_segments ''ISA*a\<newline>GS*b'') < 3
   \<and> (\<exists>r. validate_format_try ''ISA*a\<newline>GS*b'' ''850'' = Inr r)
   \<and> map_of segment_patterns ''850'' \<noteq> None
   \<and> split_into_segments ''ISA*a\<newline>GS*b'' \<noteq> []
   \<and> count_code ''INVALID_CLOSING_SEGMENTS''
        (messages (validate_format ''ISA*a\<newline>GS*b'' ''850'')) = 1
   \<and> has_errors (validate_format ''ISA*a\<newline>GS*b'' ''850'')
   \<and> length (split_into_segments '''') < 3
   \<and> split_into_segments '''' = []
   \<and> messages (validate_format '''' ''850'') = [empty_message_message]"
proof -
  have short: "length (split_into_segments ''ISA*a\<newline>GS*b'') < 3"
    by (simp add: split_into_segments_def strip_def is_space_def)
  have sup: "map_of segment_patterns ''850'' \<noteq> None"
    by (simp add: segment_patterns_def)
  have ne: "split_into_segments ''ISA*a\<newline>GS*b'' \<noteq> []"
    by (simp add: split_into_segments_def strip_def is_space_def)
  have e: "split_into_segments '''' = []"
    by (simp add: split_into_segments_def strip_def)
  have short0: "length (split_into_segments '''') < 3" using e by simp
  show ?thesis
    using short_input_closing_check [OF short, of "''850''"]
          short_input_closing_check [OF short0, of "''850''"] short sup ne e
    by simp
qed

text \<open>
  Claim C1 as stated fails on a one-segment text: the closing-sequence check runs and
  appends \<open>INVALID_CLOSING_SEGMENTS\<close>.
\<close>

theorem short_input_closing_counterexample:
  "length (split_into_segments ''ISA*a'') < 3
   \<and> map code (messages (validate_format ''ISA*a'' ''850''))
     = [''INSUFFICIENT_ISA_ELEMENTS'', ''MISSING_REQUIRED_SEGMENT'', ''MISSING_REQUIRED_SEGMENT'',
        ''MISSING_REQUIRED_SEGMENT'', ''MISSING_REQUIRED_SEGMENT'', ''MISSING_REQUIRED_SEGMENT'',
        ''MISSING_REQUIRED_SEGMENT'', ''INVALID_CLOSING_SEGMENTS'']"
  by (simp add: validator_eval)

lemma sequence_loop_first_mismatch:
  assumes "ids = found # more_ids" and "found \<noteq> expected"
  shows "\<exists>ms. sequence_loop 0 (expected # rest) ids
               = Inr (segment_order_message expected 0 found # ms)"
proof -
  obtain ms where "sequence_loop (Suc 0) rest ids = Inr ms"
    using sequence_loop_ok by blast
  with assms show ?thesis by (simp add: py_index_def)
qed

text \<open>
  Claim C3, as amended. When the first segment of a non-empty list is not \<open>ISA\<close> (and the
  type is supported), \<open>validate_format\<close> reports the Error \<open>INVALID_ISA_SEGMENT\<close> first, and
  that error ends the envelope-header check only: no \<open>INSUFFICIENT_ISA_ELEMENTS\<close> and no
  \<open>ISA_ELEMENT_TOO_LONG\<close> message is produced. The remaining checks still run and their
  messages follow: required-segment presence, opening and closing sequence, per-segment
  element counts. The opening-sequence check always contributes \<open>INVALID_SEGMENT_ORDER\<close> for
  position 1.
\<close>

theorem invalid_isa_then_remaining_checks:
  assumes sup: "map_of segment_patterns mt = Some pat"
    and segs: "split_into_segments raw = first # others"
    and not_isa: "segment_id first \<noteq> ''ISA''"
  shows "\<exists>sv. validate_segment_structure (first # others) mt = Inr sv
     \<and> messages (validate_format raw mt)
         = invalid_isa_message
           # required_loop (fst pat) (map segment_id (first # others))
           @ messages sv
           @ messages (validate_segment_elements (first # others) mt)
     \<and> list_ex (\<lambda>m. m = segment_order_message ''ISA'' 0 (segment_id first)) (messages sv)
     \<and> count_code ''INSUFFICIENT_ISA_ELEMENTS'' (messages (validate_format raw mt)) = 0
     \<and> count_code ''ISA_ELEMENT_TOO_LONG'' (messages (validate_format raw mt)) = 0
     \<and> has_errors (validate_format raw mt) \<and> \<not> is_valid (validate_format raw mt)"
proof -
  let ?ids = "map segment_id (first # others)"
  let ?req = "required_loop (fst pat) ?ids"
  let ?el = "validate_segment_elements (first # others) mt"
  obtain isa sv where isa: "validate_isa_segment first = Inr isa"
    and sv: "validate_segment_structure (first # others) mt = Inr sv"
    and r: "validate_format_try raw mt =
         Inr \<lparr>is_valid = \<not> (has_errors isa \<or> ?req \<noteq> [] \<or> has_errors sv \<or> has_errors ?el),
              messages = messages isa @ ?req @ messages sv @ messages ?el,
              has_errors = (has_errors isa \<or> ?req \<noteq> [] \<or> has_errors sv \<or> has_errors ?el)\<rparr>"
    using validate_format_try_checks [OF sup segs] by blast
  have isa_eq: "isa = \<lparr>is_valid = False, messages = [invalid_isa_message], has_errors = True\<rparr>"
    using isa validate_isa_segment_not_isa [OF not_isa] by simp
  obtain oms where svr: "validate_segment_structure (first # others) mt =
         Inr \<lparr>is_valid = (oms @ (if last_three ?ids \<noteq> [''SE'', ''GE'', ''IEA'']
                                   then [closing_segments_message] else []) = []),
              messages = oms @ (if last_three ?ids \<noteq> [''SE'', ''GE'', ''IEA'']
                                then [closing_segments_message] else []),
              has_errors = (oms @ (if last_three ?ids \<noteq> [''SE'', ''GE'', ''IEA'']
                                   then [closing_segments_message] else []) \<noteq> [])\<rparr>"
    and seq: "sequence_loop 0 [''ISA'', ''GS'', ''ST''] ?ids = Inr oms"
    and oms: "list_all (\<lambda>m. is_error m \<and> code m = ''INVALID_SEGMENT_ORDER'') oms"
    using validate_segment_structure_ok [of "first # others" mt] by blast
  obtain ms where "sequence_loop 0 [''ISA'', ''GS'', ''ST''] ?ids
      = Inr (segment_order_message ''ISA'' 0 (segment_id first) # ms)"
    using sequence_loop_first_mismatch [of ?ids "segment_id first" "map segment_id others" "''ISA''"]
      not_isa by auto
  with seq have oms_eq: "oms = segment_order_message ''ISA'' 0 (segment_id first) # ms" by simp
  have sv_msgs: "messages sv = oms @ (if last_three ?ids \<noteq> [''SE'', ''GE'', ''IEA'']
                                then [closing_segments_message] else [])"
    using sv svr by auto
  have in_sv: "list_ex (\<lambda>m. m = segment_order_message ''ISA'' 0 (segment_id first)) (messages sv)"
    unfolding sv_msgs oms_eq by simp
  have vf: "validate_format raw mt =
         \<lparr>is_valid = \<not> (has_errors isa \<or> ?req \<noteq> [] \<or> has_errors sv \<or> has_errors ?el),
              messages = messages isa @ ?req @ messages sv @ messages ?el,
              has_errors = (has_errors isa \<or> ?req \<noteq> [] \<or> has_errors sv \<or> has_errors ?el)\<rparr>"
    using r by (rule validate_format_is_try)
  have msgs: "messages (validate_format raw mt) = invalid_isa_message # ?req @ messages sv @ messages ?el"
    unfolding vf isa_eq by simp
  have cl: "code closing_segments_message \<noteq> ''INSUFFICIENT_ISA_ELEMENTS''
            \<and> code closing_segments_message \<noteq> ''ISA_ELEMENT_TOO_LONG''"
    by (simp add: closing_segments_message_def)
  have c_sv: "count_code c (messages sv) = 0"
    if "c = ''INSUFFICIENT_ISA_ELEMENTS'' \<or> c = ''ISA_ELEMENT_TOO_LONG''" for c
    unfolding sv_msgs using oms cl that
    by (intro count_code_none) (auto elim: list_all_weaken)
  have c_req: "count_code c ?req = 0"
    if "c = ''INSUFFICIENT_ISA_ELEMENTS'' \<or> c = ''ISA_ELEMENT_TOO_LONG''" for c
    using required_loop_ok [of "fst pat" ?ids] that
    by (intro count_code_none) (auto elim: list_all_weaken)
  have c_el: "count_code c (messages ?el) = 0"
    if "c = ''INSUFFICIENT_ISA_ELEMENTS'' \<or> c = ''ISA_ELEMENT_TOO_LONG''" for c
    using elements_loop_ok [of "first # others"] that
    by (intro count_code_none)
       (auto simp: validate_segment_elements_def Let_def elim: list_all_weaken)
  have c1: "count_code ''INSUFFICIENT_ISA_ELEMENTS'' (messages (validate_format raw mt)) = 0"
    unfolding msgs using c_sv c_req c_el
    by (simp add: count_code_Cons count_code_append invalid_isa_message_def)
  have c2: "count_code ''ISA_ELEMENT_TOO_LONG'' (messages (validate_format raw mt)) = 0"
    unfolding msgs using c_sv c_req c_el
    by (simp add: count_code_Cons count_code_append invalid_isa_message_def)
  have he: "has_errors (validate_format raw mt) \<and> \<not> is_valid (validate_format raw mt)"
    unfolding vf isa_eq by simp
  from sv msgs in_sv c1 c2 he show ?thesis by blast
qed

text \<open>Claim C3, witness: the one-segment text \<open>GS*a\<close>, type 850.\<close>

theorem invalid_isa_then_remaining_checks_witness:
  "map_of segment_patterns ''850''
     = Some ([''ISA'', ''GS'', ''ST'', ''BEG'', ''SE'', ''GE'', ''IEA''],
             [''REF'', ''N1'', ''N3'', ''N4'', ''PO1'', ''CTT''])
   \<and> split_into_segments ''GS*a''
       = [\<lparr>segment_id = ''GS'', elements = [''a''], line_number = 1, position = 1\<rparr>]
   \<and> (\<exists>sv. validate_segment_structure
              [\<lparr>segment_id = ''GS'', elements = [''a''], line_number = 1, position = 1\<rparr>] ''850''
              = Inr sv
         \<and> list_ex (\<lambda>m. m = segment_order_message ''ISA'' 0 ''GS'') (messages sv))
   \<and> count_code ''INSUFFICIENT_ISA_ELEMENTS'' (messages (validate_format ''GS*a'' ''850'')) = 0
   \<and> count_code ''ISA_ELEMENT_TOO_LONG'' (messages (validate_format ''GS*a'' ''850'')) = 0
   \<and> has_errors (validate_format ''GS*a'' ''850'')"
proof -
  have sup: "map_of segment_patterns ''850''
     = Some ([''ISA'', ''GS'', ''ST'', ''BEG'', ''SE'', ''GE'', ''IEA''],
             [''REF'', ''N1'', ''N3'', ''N4'', ''PO1'', ''CTT''])"
    by (simp add: segment_patterns_def)
  have segs: "split_into_segments ''GS*a''
       = [\<lparr>segment_id = ''GS'', elements = [''a''], line_number = 1, position = 1\<rparr>]"
    by (simp add: split_into_segments_def strip_def is_space_def)
  have not_isa: "segment_id \<lparr>segment_id = ''GS'', elements = [''a''], line_number = 1,
                              position = 1\<rparr> \<noteq> ''ISA''"
    by simp
  show ?thesis
    using invalid_isa_then_remaining_checks [OF sup segs not_isa] sup segs
    by auto
qed

text \<open>
  Claim C3 as stated fails on the text \<open>GS*a\<close>: after \<open>INVALID_ISA_SEGMENT\<close> the
  required-segment, opening-sequence and closing-sequence checks all contribute messages.
\<close>

theorem invalid_isa_terminal_counterexample:
  "split_into_segments ''GS*a''
     = [\<lparr>segment_id = ''GS'', elements = [''a''], line_number = 1, position = 1\<rparr>]
   \<and> map code (messages (validate_format ''GS*a'' ''850''))
     = [''INVALID_ISA_SEGMENT'', ''MISSING_REQUIRED_SEGMENT'', ''MISSING_REQUIRED_SEGMENT'',
        ''MISSING_REQUIRED_SEGMENT'', ''MISSING_REQUIRED_SEGMENT'', ''MISSING_REQUIRED_SEGMENT'',
        ''MISSING_REQUIRED_SEGMENT'', ''INVALID_SEGMENT_ORDER'', ''INVALID_CLOSING_SEGMENTS'']"
  by (simp add: validator_eval)

section \<open>Detection: properties\<close>



















text \<open>
  The two patterns do not look at the same field: after \<open>ISA*\<close> the marker \<open>004010\<close> is
  found behind sixteen fields, the marker \<open>005010\<close> behind seventeen.
\<close>

lemma detect_edi_version_field_counts:
  "detect_edi_version ''ISA*a*a*a*a*a*a*a*a*a*a*a*a*a*a*a*a*004010'' = ''004010''
   \<and> detect_edi_version ''ISA*a*a*a*a*a*a*a*a*a*a*a*a*a*a*a*a*005010'' = ''Unknown''
   \<and> detect_edi_version ''ISA*a*a*a*a*a*a*a*a*a*a*a*a*a*a*a*a*a*005010'' = ''005010''"
  by code_simp


text \<open>The sample purchase order of the repository's client example has no version either.\<close>

lemma detect_edi_version_sample_message:
  "detect_edi_version ''ISA*00*          *00*          *ZZ*SENDER         *ZZ*RECEIVER       *210101*1200*^*00501*000000001*0*P*>~\<newline>GS*PO*SENDER*RECEIVER*20210101*1200*1*X*005010~\<newline>ST*850*0001~'' = ''Unknown''"
  by code_simp

section \<open>Pipeline: properties\<close>

text \<open>
  More generally the message list of every \<open>SUCCESS\<close> response is empty: the messages of a
  validation are taken over only when the outcome is not valid, and a not valid outcome has
  errors and ends the request.
\<close>

lemma success_response_has_no_messages:
  assumes "status (fst (ProcessEdiMessage float_of now request)) = PROCESSING_STATUS_SUCCESS"
  shows "resp_messages (fst (ProcessEdiMessage float_of now request)) = []"
proof -
  have f: "is_valid (validate_format raw mt) = (\<not> has_errors (validate_format raw mt))" for raw mt
    using validate_format_consistent [of raw mt] by (simp add: consistent_def)
  have b: "is_valid (validate_business_rules p mt) = (\<not> has_errors (validate_business_rules p mt))"
    for p :: "'a parsed_data" and mt
    using validate_business_rules_consistent [of p mt] by (simp add: consistent_def)
  show ?thesis
    using assms
    by (auto simp: ProcessEdiMessage_def internal_error_reply_def Let_def f b
        split: if_splits option.splits)
qed

lemmas parser_eval =
  parse_message_def parse_message_try_def parse_functional_acknowledgment_def fa_segment_def
  fa_ak1_def fa_ak2_def empty_functional_ack_def empty_transaction_ack_def
  convert_segments_to_pb_def

lemmas rules_eval =
  validate_business_rules_def validate_business_rules_try_def validate_functional_ack_rules_def
  error_message_def

text \<open>The handler of the outer \<open>try\<close> is never entered.\<close>

lemma successful_parse_has_data:
  "success (parse_message float_of raw mt) \<Longrightarrow>
   parsed_data_of (parse_message float_of raw mt) \<noteq> None"
  by (auto simp: parse_message_def parse_message_try_def Let_def split: sum.splits if_splits)

lemma never_internal_error:
  "status (fst (ProcessEdiMessage float_of now request)) \<noteq> PROCESSING_STATUS_INTERNAL_ERROR"
  using successful_parse_has_data [of float_of "req_edi_message request" "req_message_type request"]
  by (auto simp: ProcessEdiMessage_def Let_def split: option.splits)

lemma validate_format_warning_only_997: "validate_format warning_only_997 ''997''
        = \<lparr>is_valid = True, messages = [isa_too_long_message 0 2], has_errors = False\<rparr>"
  by (simp add: warning_only_997_def validator_eval)

lemma parse_message_warning_only_997: "parsed_data_of (parse_message float_of warning_only_997 ''997'')
    = Some (FunctionalAcknowledgmentData
         \<lparr>original_transaction_set_id = ''850'', original_control_number = ''0001'',
          acknowledgment_code = ''A'', transaction_set_acks = []\<rparr>)
    \<and> success (parse_message float_of warning_only_997 ''997'')"
  by (simp add: warning_only_997_def parser_eval split_into_segments_def strip_def is_space_def)

lemma business_rules_warning_only_997: "validate_business_rules (FunctionalAcknowledgmentData
         \<lparr>original_transaction_set_id = ''850'', original_control_number = ''0001'',
          acknowledgment_code = ''A'', transaction_set_acks = []\<rparr>) ''997''
     = \<lparr>is_valid = True, messages = [], has_errors = False\<rparr>"
  by (simp add: rules_eval)

lemma supported_997: "is_message_type_supported ''997''"
  by (simp add: is_message_type_supported_def supported_types_def)

text \<open>
  Claim C2: the code at the failing input. Format validation of the sample 997 document
  yields one Warning (\<open>ISA_ELEMENT_TOO_LONG\<close>) and no Error; extraction and the business
  rules succeed; \<open>ProcessEdiMessage\<close> returns \<open>SUCCESS\<close> with an empty message list, the
  Warning being dropped.
\<close>

theorem warning_only_validation_loses_messages:
  "validate_format warning_only_997 ''997''
     = \<lparr>is_valid = True, messages = [isa_too_long_message 0 2], has_errors = False\<rparr>
   \<and> level (isa_too_long_message 0 2) = MESSAGE_LEVEL_WARNING
   \<and> success (parse_message (float_of :: string \<Rightarrow> string + 'v::{zero,ord}) warning_only_997 ''997'')
   \<and> validate_business_rules
         (FunctionalAcknowledgmentData
            \<lparr>original_transaction_set_id = ''850'', original_control_number = ''0001'',
             acknowledgment_code = ''A'', transaction_set_acks = []\<rparr> :: 'v parsed_data) ''997''
       = \<lparr>is_valid = True, messages = [], has_errors = False\<rparr>
   \<and> status (fst (ProcessEdiMessage float_of now request_997)) = PROCESSING_STATUS_SUCCESS
   \<and> resp_data (fst (ProcessEdiMessage float_of now request_997))
       = Some (FunctionalAcknowledgmentData
            \<lparr>original_transaction_set_id = ''850'', original_control_number = ''0001'',
             acknowledgment_code = ''A'', transaction_set_acks = []\<rparr>)
   \<and> resp_messages (fst (ProcessEdiMessage float_of now request_997)) = []"
proof -
  have lv: "level (isa_too_long_message 0 2) = MESSAGE_LEVEL_WARNING"
    by (simp add: isa_too_long_message_def)
  show ?thesis
    by (simp add: lv validate_format_warning_only_997 parse_message_warning_only_997
        business_rules_warning_only_997 supported_997 ProcessEdiMessage_def request_997_def Let_def)
qed

section \<open>Extraction: properties\<close>

lemma fa_segment_keeps_code:
  "\<not> writes_ack_code s \<Longrightarrow> acknowledgment_code (fa_segment s d) = acknowledgment_code d"
  by (auto simp: writes_ack_code_def fa_segment_def fa_ak1_def Let_def)

lemma fa_fold_keeps_code:
  "list_all (\<lambda>s. \<not> writes_ack_code s) post \<Longrightarrow>
   acknowledgment_code (foldl (\<lambda>fa_data s. fa_segment s fa_data) d post) = acknowledgment_code d"
  by (induction post arbitrary: d) (simp_all add: fa_segment_keeps_code)

lemma fa_segment_ak5:
  "segment_id s = ''AK5'' \<Longrightarrow> 1 \<le> length (elements s) \<Longrightarrow>
   acknowledgment_code (fa_segment s d) = elements s ! 0"
  by (simp add: fa_segment_def Let_def)

text \<open>
  Claim C10, as amended. In the extraction of a 997 document the acknowledgment code is
  assigned by every \<open>AK1\<close> segment with a third element and by every \<open>AK5\<close> segment with
  an element; the last assignment stands. So the record holds the first element of an
  \<open>AK5\<close> segment when no later \<open>AK5\<close> segment with an element and no later \<open>AK1\<close> segment
  with a third element follows it; that value overwrites the code of any earlier \<open>AK1\<close>.
\<close>

theorem last_ak5_sets_acknowledgment_code:
  assumes "segs = pre @ [ak5] @ post"
    and "segment_id ak5 = ''AK5''" and "1 \<le> length (elements ak5)"
    and "list_all (\<lambda>s. \<not> writes_ack_code s) post"
  shows "acknowledgment_code (parse_functional_acknowledgment segs) = elements ak5 ! 0"
  unfolding parse_functional_acknowledgment_def assms(1)
  using assms(2-4) by (simp add: fa_fold_keeps_code fa_segment_ak5)

lemmas fa_eval = parse_functional_acknowledgment_def fa_segment_def fa_ak1_def fa_ak2_def
  empty_functional_ack_def empty_transaction_ack_def mk_segment_def Let_def

text \<open>
  Claim C10, witness: an \<open>AK1\<close> with code \<open>P\<close>, then two transaction responses ending in
  \<open>AK5*A\<close> and \<open>AK5*R\<close>.
\<close>

theorem last_ak5_sets_acknowledgment_code_witness:
  "[mk_segment ''AK1'' [''850'', ''0001'', ''P''] 1, mk_segment ''AK2'' [''850'', ''0001''] 2,
    mk_segment ''AK5'' [''A''] 3, mk_segment ''AK2'' [''850'', ''0002''] 4,
    mk_segment ''AK5'' [''R''] 5, mk_segment ''AK9'' [''P''] 6]
   = [mk_segment ''AK1'' [''850'', ''0001'', ''P''] 1, mk_segment ''AK2'' [''850'', ''0001''] 2,
      mk_segment ''AK5'' [''A''] 3, mk_segment ''AK2'' [''850'', ''0002''] 4]
     @ [mk_segment ''AK5'' [''R''] 5] @ [mk_segment ''AK9'' [''P''] 6]
   \<and> segment_id (mk_segment ''AK5'' [''R''] 5) = ''AK5''
   \<and> 1 \<le> length (elements (mk_segment ''AK5'' [''R''] 5))
   \<and> list_all (\<lambda>s. \<not> writes_ack_code s) [mk_segment ''AK9'' [''P''] 6]
   \<and> acknowledgment_code (parse_functional_acknowledgment
        [mk_segment ''AK1'' [''850'', ''0001'', ''P''] 1, mk_segment ''AK2'' [''850'', ''0001''] 2,
         mk_segment ''AK5'' [''A''] 3, mk_segment ''AK2'' [''850'', ''0002''] 4,
         mk_segment ''AK5'' [''R''] 5, mk_segment ''AK9'' [''P''] 6]) = ''R''"
proof -
  have a: "segment_id (mk_segment ''AK5'' [''R''] 5) = ''AK5''"
    by (simp add: mk_segment_def)
  have b: "1 \<le> length (elements (mk_segment ''AK5'' [''R''] 5))"
    by (simp add: mk_segment_def)
  have c: "list_all (\<lambda>s. \<not> writes_ack_code s) [mk_segment ''AK9'' [''P''] 6]"
    by (simp add: mk_segment_def writes_ack_code_def)
  have e: "elements (mk_segment ''AK5'' [''R''] 5) ! 0 = ''R''"
    by (simp add: mk_segment_def)
  show ?thesis
    using last_ak5_sets_acknowledgment_code [OF _ a b c,
      of _ "[mk_segment ''AK1'' [''850'', ''0001'', ''P''] 1, mk_segment ''AK2'' [''850'', ''0001''] 2,
      mk_segment ''AK5'' [''A''] 3, mk_segment ''AK2'' [''850'', ''0002''] 4]"] a b c e
    by simp
qed

text \<open>
  Claim C10 as stated fails: after an \<open>AK1\<close> followed by \<open>AK5*A\<close> the record holds \<open>R\<close>
  when a second \<open>AK5*R\<close> follows, and it holds the code \<open>E\<close> of a second \<open>AK1\<close> when that
  one follows the \<open>AK5\<close>.
\<close>

theorem ak5_acknowledgment_code_counterexample:
  "acknowledgment_code (parse_functional_acknowledgment
        [mk_segment ''AK1'' [''850'', ''0001'', ''P''] 1, mk_segment ''AK2'' [''850'', ''0001''] 2,
         mk_segment ''AK5'' [''A''] 3, mk_segment ''AK2'' [''850'', ''0002''] 4,
         mk_segment ''AK5'' [''R''] 5, mk_segment ''AK9'' [''P''] 6]) = ''R''
   \<and> acknowledgment_code (parse_functional_acknowledgment
        [mk_segment ''AK1'' [''850'', ''0001'', ''P''] 1, mk_segment ''AK5'' [''A''] 2,
         mk_segment ''AK1'' [''810'', ''0002'', ''E''] 3]) = ''E''"
  by (simp add: fa_eval)

lemma for_each_append:
  "for_each body (xs @ ys) st =
     (case for_each body xs st of Inl e \<Rightarrow> Inl e | Inr st' \<Rightarrow> for_each body ys st')"
  by (induction xs arbitrary: st) (auto split: sum.splits)

lemma for_each_keeps:
  assumes "\<And>x st st'. x \<in> set xs \<Longrightarrow> body x st = Inr st' \<Longrightarrow> f st' = f st"
    and "for_each body xs st = Inr st'"
  shows "f st' = f st"
  using assms
proof (induction xs arbitrary: st)
  case Nil
  then show ?case by simp
next
  case (Cons x xs)
  from Cons.prems(2) obtain st1 where s1: "body x st = Inr st1"
    and r: "for_each body xs st1 = Inr st'"
    by (auto split: sum.splits)
  have "f st' = f st1"
  proof (rule Cons.IH [OF _ r])
    fix y st2 st3
    assume "y \<in> set xs" and "body y st2 = Inr st3"
    then show "f st3 = f st2" using Cons.prems(1) [of y st2 st3] by simp
  qed
  moreover have "f st1 = f st"
    using Cons.prems(1) [of x st st1] s1 by simp
  ultimately show ?case by simp
qed

lemma po_segment_keeps_slot:
  "\<not> party_segment r s \<Longrightarrow> po_segment float_of s d = Inr d' \<Longrightarrow> po_slot r d' = po_slot r d"
  by (auto simp: party_segment_def po_segment_def po_n1_def po_beg_def po_slot_def Let_def
      split: if_splits sum.splits)

lemma po_segment_sets_slot:
  "party_segment r s \<Longrightarrow> r \<in> set [''BY'', ''SE'', ''ST'', ''BT''] \<Longrightarrow>
   po_segment float_of s d = Inr d' \<Longrightarrow>
   po_slot r d' = Some \<lparr>entity_identifier_code = r, name = elements s ! 1\<rparr>"
  by (auto simp: party_segment_def po_segment_def po_n1_def po_slot_def Let_def)

lemma inv_segment_keeps_slot:
  "\<not> party_segment r s \<Longrightarrow> inv_segment float_of s d = Inr d' \<Longrightarrow> inv_slot r d' = inv_slot r d"
  by (auto simp: party_segment_def inv_segment_def inv_n1_def inv_big_def inv_slot_def Let_def
      split: if_splits sum.splits)

lemma inv_segment_sets_slot:
  "party_segment r s \<Longrightarrow> r \<in> set [''BT'', ''RE'', ''SF'', ''ST''] \<Longrightarrow>
   inv_segment float_of s d = Inr d' \<Longrightarrow>
   inv_slot r d' = Some \<lparr>entity_identifier_code = r, name = elements s ! 1\<rparr>"
  by (auto simp: party_segment_def inv_segment_def inv_n1_def inv_slot_def Let_def)

lemma asn_segment_keeps_slot:
  "\<not> party_segment r s \<Longrightarrow> asn_slot r (asn_segment s d) = asn_slot r d"
  by (auto simp: party_segment_def asn_segment_def asn_n1_def asn_bsn_def asn_slot_def Let_def)

lemma asn_segment_sets_slot:
  "party_segment r s \<Longrightarrow> r \<in> set [''SF'', ''ST'', ''BT'', ''CA''] \<Longrightarrow>
   asn_slot r (asn_segment s d) = Some \<lparr>entity_identifier_code = r, name = elements s ! 1\<rparr>"
  by (auto simp: party_segment_def asn_segment_def asn_n1_def asn_slot_def Let_def)

lemma asn_fold_keeps_slot:
  "list_all (\<lambda>t. \<not> party_segment r t) post \<Longrightarrow>
   asn_slot r (foldl (\<lambda>asn_data s. asn_segment s asn_data) d post) = asn_slot r d"
  by (induction post arbitrary: d) (simp_all add: asn_segment_keeps_slot)

lemma po_last_party:
  assumes "party_segment r s" and "list_all (\<lambda>t. \<not> party_segment r t) post"
    and "r \<in> set [''BY'', ''SE'', ''ST'', ''BT'']"
    and "parse_purchase_order float_of (pre @ [s] @ post) = Inr po"
  shows "po_slot r po = Some \<lparr>entity_identifier_code = r, name = elements s ! 1\<rparr>"
proof -
  from assms(4) obtain d1 d2 where
    "for_each (po_segment float_of) pre empty_purchase_order = Inr d1"
    and s: "po_segment float_of s d1 = Inr d2"
    and p: "for_each (po_segment float_of) post d2 = Inr po"
    by (auto simp: parse_purchase_order_def for_each_append split: sum.splits)
  have "po_slot r po = po_slot r d2"
  proof (rule for_each_keeps [OF _ p])
    fix x st st'
    assume "x \<in> set post" and "po_segment float_of x st = Inr st'"
    with assms(2) show "po_slot r st' = po_slot r st"
      by (auto simp: list_all_iff intro: po_segment_keeps_slot)
  qed
  with po_segment_sets_slot [OF assms(1) assms(3) s] show ?thesis by simp
qed

lemma inv_last_party:
  assumes "party_segment r s" and "list_all (\<lambda>t. \<not> party_segment r t) post"
    and "r \<in> set [''BT'', ''RE'', ''SF'', ''ST'']"
    and "parse_invoice float_of (pre @ [s] @ post) = Inr invoice"
  shows "inv_slot r invoice = Some \<lparr>entity_identifier_code = r, name = elements s ! 1\<rparr>"
proof -
  from assms(4) obtain d1 d2 where
    "for_each (inv_segment float_of) pre empty_invoice = Inr d1"
    and s: "inv_segment float_of s d1 = Inr d2"
    and p: "for_each (inv_segment float_of) post d2 = Inr invoice"
    by (auto simp: parse_invoice_def for_each_append split: sum.splits)
  have "inv_slot r invoice = inv_slot r d2"
  proof (rule for_each_keeps [OF _ p])
    fix x st st'
    assume "x \<in> set post" and "inv_segment float_of x st = Inr st'"
    with assms(2) show "inv_slot r st' = inv_slot r st"
      by (auto simp: list_all_iff intro: inv_segment_keeps_slot)
  qed
  with inv_segment_sets_slot [OF assms(1) assms(3) s] show ?thesis by simp
qed

lemma asn_last_party:
  assumes "party_segment r s" and "list_all (\<lambda>t. \<not> party_segment r t) post"
    and "r \<in> set [''SF'', ''ST'', ''BT'', ''CA'']"
  shows "asn_slot r (parse_advance_ship_notice (pre @ [s] @ post))
           = Some \<lparr>entity_identifier_code = r, name = elements s ! 1\<rparr>"
  unfolding parse_advance_ship_notice_def
  using assms by (simp add: asn_fold_keeps_slot asn_segment_sets_slot)

text \<open>
  Claim C7, as amended. The extractors read a party from an \<open>N1\<close> segment only when it has
  at least two elements (role code and name). Among these segments the last one with a
  given recognized role code fills the slot of that role, with its role code and its name:
  earlier ones are overwritten, nothing is merged and nothing is rejected. An \<open>N1\<close> segment
  with the role code alone is ignored and overwrites nothing. This holds for the purchase
  order, the invoice and the ship notice, for each of their four roles.
\<close>

theorem last_party_segment_fills_slot:
  assumes "segs = pre @ [s] @ post"
    and "party_segment r s"
    and "list_all (\<lambda>t. \<not> party_segment r t) post"
  shows "(r \<in> set [''BY'', ''SE'', ''ST'', ''BT''] \<and> parse_purchase_order float_of segs = Inr po
            \<longrightarrow> po_slot r po = Some \<lparr>entity_identifier_code = r, name = elements s ! 1\<rparr>)
       \<and> (r \<in> set [''BT'', ''RE'', ''SF'', ''ST''] \<and> parse_invoice float_of segs = Inr invoice
            \<longrightarrow> inv_slot r invoice = Some \<lparr>entity_identifier_code = r, name = elements s ! 1\<rparr>)
       \<and> (r \<in> set [''SF'', ''ST'', ''BT'', ''CA'']
            \<longrightarrow> asn_slot r (parse_advance_ship_notice segs)
                  = Some \<lparr>entity_identifier_code = r, name = elements s ! 1\<rparr>)"
  unfolding assms(1)
  using po_last_party [OF assms(2,3)] inv_last_party [OF assms(2,3)]
        asn_last_party [OF assms(2,3)]
  by blast

lemmas party_eval =
  parse_purchase_order_def po_segment_def po_n1_def po_beg_def empty_purchase_order_def
  parse_invoice_def inv_segment_def inv_n1_def inv_big_def empty_invoice_def
  parse_advance_ship_notice_def asn_segment_def asn_n1_def asn_bsn_def empty_ship_notice_def
  empty_party_def mk_segment_def Let_def

text \<open>
  Claim C7, witness: role \<open>ST\<close>, which all three kinds recognize; two party segments, then
  an \<open>N1\<close> segment with the role code alone and a \<open>REF\<close> segment.
\<close>

theorem last_party_segment_fills_slot_witness:
  "[mk_segment ''N1'' [''ST'', ''ACME''] 1, mk_segment ''N1'' [''ST'', ''GLOBEX''] 2,
    mk_segment ''N1'' [''ST''] 3, mk_segment ''REF'' [''DP''] 4]
   = [mk_segment ''N1'' [''ST'', ''ACME''] 1] @ [mk_segment ''N1'' [''ST'', ''GLOBEX''] 2]
     @ [mk_segment ''N1'' [''ST''] 3, mk_segment ''REF'' [''DP''] 4]
   \<and> party_segment ''ST'' (mk_segment ''N1'' [''ST'', ''GLOBEX''] 2)
   \<and> list_all (\<lambda>t. \<not> party_segment ''ST'' t)
        [mk_segment ''N1'' [''ST''] 3, mk_segment ''REF'' [''DP''] 4]
   \<and> parse_purchase_order sample_float
        [mk_segment ''N1'' [''ST'', ''ACME''] 1, mk_segment ''N1'' [''ST'', ''GLOBEX''] 2,
         mk_segment ''N1'' [''ST''] 3, mk_segment ''REF'' [''DP''] 4]
      = Inr (empty_purchase_order
               \<lparr>po_ship_to := \<lparr>entity_identifier_code = ''ST'', name = ''GLOBEX''\<rparr>\<rparr>)
   \<and> po_slot ''ST'' (empty_purchase_order
               \<lparr>po_ship_to := \<lparr>entity_identifier_code = ''ST'', name = ''GLOBEX''\<rparr>\<rparr>
               :: real purchase_order_data)
      = Some \<lparr>entity_identifier_code = ''ST'', name = ''GLOBEX''\<rparr>
   \<and> parse_invoice sample_float
        [mk_segment ''N1'' [''ST'', ''ACME''] 1, mk_segment ''N1'' [''ST'', ''GLOBEX''] 2,
         mk_segment ''N1'' [''ST''] 3, mk_segment ''REF'' [''DP''] 4]
      = Inr (empty_invoice
               \<lparr>inv_ship_to := \<lparr>entity_identifier_code = ''ST'', name = ''GLOBEX''\<rparr>\<rparr>)
   \<and> inv_slot ''ST'' (empty_invoice
               \<lparr>inv_ship_to := \<lparr>entity_identifier_code = ''ST'', name = ''GLOBEX''\<rparr>\<rparr>
               :: real invoice_data)
      = Some \<lparr>entity_identifier_code = ''ST'', name = ''GLOBEX''\<rparr>
   \<and> asn_slot ''ST'' (parse_advance_ship_notice
        [mk_segment ''N1'' [''ST'', ''ACME''] 1, mk_segment ''N1'' [''ST'', ''GLOBEX''] 2,
         mk_segment ''N1'' [''ST''] 3, mk_segment ''REF'' [''DP''] 4])
      = Some \<lparr>entity_identifier_code = ''ST'', name = ''GLOBEX''\<rparr>"
proof -
  let ?segs = "[mk_segment ''N1'' [''ST'', ''ACME''] 1, mk_segment ''N1'' [''ST'', ''GLOBEX''] 2,
    mk_segment ''N1'' [''ST''] 3, mk_segment ''REF'' [''DP''] 4]"
  let ?po = "empty_purchase_order
               \<lparr>po_ship_to := \<lparr>entity_identifier_code = ''ST'', name = ''GLOBEX''\<rparr>\<rparr>
             :: real purchase_order_data"
  let ?inv = "empty_invoice
               \<lparr>inv_ship_to := \<lparr>entity_identifier_code = ''ST'', name = ''GLOBEX''\<rparr>\<rparr>
             :: real invoice_data"
  have d: "?segs = [mk_segment ''N1'' [''ST'', ''ACME''] 1] @ [mk_segment ''N1'' [''ST'', ''GLOBEX''] 2]
     @ [mk_segment ''N1'' [''ST''] 3, mk_segment ''REF'' [''DP''] 4]"
    by simp
  have p: "party_segment ''ST'' (mk_segment ''N1'' [''ST'', ''GLOBEX''] 2)"
    by (simp add: party_segment_def mk_segment_def)
  have n: "list_all (\<lambda>t. \<not> party_segment ''ST'' t)
        [mk_segment ''N1'' [''ST''] 3, mk_segment ''REF'' [''DP''] 4]"
    by (simp add: party_segment_def mk_segment_def)
  have po: "parse_purchase_order sample_float ?segs = Inr ?po"
    by (simp add: party_eval)
  have inv: "parse_invoice sample_float ?segs = Inr ?inv"
    by (simp add: party_eval)
  have e: "elements (mk_segment ''N1'' [''ST'', ''GLOBEX''] 2) ! 1 = ''GLOBEX''"
    by (simp add: mk_segment_def)
  have r1: "''ST'' \<in> set [''BY'', ''SE'', ''ST'', ''BT'']" by simp
  have r2: "''ST'' \<in> set [''BT'', ''RE'', ''SF'', ''ST'']" by simp
  have r3: "''ST'' \<in> set [''SF'', ''ST'', ''BT'', ''CA'']" by simp
  note t = last_party_segment_fills_slot [OF d p n, of sample_float ?po ?inv]
  have s1: "po_slot ''ST'' ?po = Some \<lparr>entity_identifier_code = ''ST'', name = ''GLOBEX''\<rparr>"
    using t r1 po e by simp
  have s2: "inv_slot ''ST'' ?inv = Some \<lparr>entity_identifier_code = ''ST'', name = ''GLOBEX''\<rparr>"
    using t r2 inv e by simp
  have s3: "asn_slot ''ST'' (parse_advance_ship_notice ?segs)
      = Some \<lparr>entity_identifier_code = ''ST'', name = ''GLOBEX''\<rparr>"
    using t r3 e by simp
  from d p n po inv s1 s2 s3 show ?thesis by blast
qed

text \<open>
  Claim C7 as stated fails when the last \<open>N1\<close> segment carrying the role code has no name
  element: the slot keeps the code and name of the earlier segment.
\<close>

theorem repeated_party_counterexample:
  "asn_ship_from (parse_advance_ship_notice
      [mk_segment ''N1'' [''SF'', ''ACME''] 1, mk_segment ''N1'' [''SF''] 2])
     = \<lparr>entity_identifier_code = ''SF'', name = ''ACME''\<rparr>
   \<and> buyer (projr (parse_purchase_order sample_float
      [mk_segment ''N1'' [''BY'', ''ACME''] 1, mk_segment ''N1'' [''BY''] 2]))
     = \<lparr>entity_identifier_code = ''BY'', name = ''ACME''\<rparr>"
  by (simp add: party_eval)































end
